theory Spec2Isabelle
  imports Complex_Main "HOL-Library.Multiset"
begin

section \<open>Binance futures filter: data model\<close>

text \<open>
  The program is one script, \<^verbatim>\<open>binance_future_filter.py\<close>, that the UI host runs from
  top to bottom on every interaction. It keeps three things in the session
  (\<^verbatim>\<open>st.session_state\<close>): the metadata list \<^verbatim>\<open>symbols_cache\<close>, the dictionary
  \<^verbatim>\<open>candle_cache\<close> and the table \<^verbatim>\<open>filtered_df\<close>. Two fetch functions are
  memoised by the host with a time to live.

  Numbers. The exchange sends prices and percentages as strings and the script turns
  them into floats with \<^verbatim>\<open>float\<close>. A float is modelled by \<open>pyfloat\<close> below: a finite
  float by its exact value, the two infinities, and not-a-number, with the comparisons
  of Python. How a string or a number is rounded to a float is the library's business
  and stays inside the library functions, which are parameters.
\<close>

datatype py_error =
    RequestException        \<comment> \<open>\<^verbatim>\<open>requests.get\<close> raised: timeout, connection failure\<close>
  | HTTPError nat           \<comment> \<open>\<^verbatim>\<open>raise_for_status\<close> on a 4xx or 5xx status\<close>
  | JSONDecodeError         \<comment> \<open>\<^verbatim>\<open>r.json()\<close> raised\<close>
  | ValueError              \<comment> \<open>\<^verbatim>\<open>float\<close> of a string that is not a number\<close>
  | KeyError string         \<comment> \<open>a column that the table does not have\<close>
  | DateParseError          \<comment> \<open>\<^verbatim>\<open>pd.to_datetime\<close> raised\<close>

text \<open>
  What \<^verbatim>\<open>requests.get(..., timeout=10)\<close> gives: it raises, or it returns a response with
  a status code and a body; \<open>None\<close> is a body on which \<^verbatim>\<open>r.json()\<close> raises.
\<close>

datatype 'a response = Raised | Response nat "'a option"

text \<open>A scalar of the JSON wire format.\<close>

datatype jval = JNum rat | JStr string | JNull

text \<open>
  A Python float. \<open>f_le\<close> is \<^verbatim>\<open><=\<close> and \<open>f_lt\<close> is \<^verbatim>\<open><\<close>: every comparison with
  not-a-number is false.
\<close>

datatype pyfloat = Fin rat | PosInf | NegInf | NaN

fun f_le :: "pyfloat \<Rightarrow> pyfloat \<Rightarrow> bool" where
  "f_le NaN y = False"
| "f_le x NaN = False"
| "f_le NegInf y = True"
| "f_le x PosInf = True"
| "f_le (Fin x) (Fin y) = (x \<le> y)"
| "f_le x y = False"

definition f_lt :: "pyfloat \<Rightarrow> pyfloat \<Rightarrow> bool" where
  "f_lt x y \<longleftrightarrow> f_le x y \<and> \<not> f_le y x"

definition is_nan :: "pyfloat \<Rightarrow> bool" where
  "is_nan x \<longleftrightarrow> x = NaN"

text \<open>An entry of \<^verbatim>\<open>data["symbols"]\<close> of the exchange metadata.\<close>

record symbol_info =
  symbol :: string
  quoteAsset :: string
  contractType :: string
  status :: string

text \<open>An entry of the 24h ticker list; the three numeric fields are strings on the wire.\<close>

record ticker =
  t_symbol :: string
  priceChangePercent :: string
  lastPrice :: string
  quoteVolume :: string

text \<open>A candle on the wire: an array of twelve scalars, in this order.\<close>

record kline =
  k_openTime :: jval
  k_open :: jval
  k_high :: jval
  k_low :: jval
  k_close :: jval
  k_volume :: jval
  k_closeTime :: jval
  k_quoteAssetVolume :: jval
  k_nbrTrades :: jval
  k_takerBuyBase :: jval
  k_takerBuyQuote :: jval
  k_ignore :: jval

text \<open>A point in time of a \<^verbatim>\<open>datetime64\<close> column: milliseconds since the epoch, or \<^verbatim>\<open>NaT\<close>.\<close>

datatype instant = Instant int | NaT

text \<open>
  The table that \<^verbatim>\<open>get_klines_cached\<close> returns, column by column as pandas holds
  it: the five numeric columns are float columns, the two time columns hold instants,
  the other five columns are left as they came.
\<close>

record frame =
  c_openTime :: "instant list"
  c_open :: "pyfloat list"
  c_high :: "pyfloat list"
  c_low :: "pyfloat list"
  c_close :: "pyfloat list"
  c_volume :: "pyfloat list"
  c_closeTime :: "instant list"
  c_quoteAssetVolume :: "jval list"
  c_nbrTrades :: "jval list"
  c_takerBuyBase :: "jval list"
  c_takerBuyQuote :: "jval list"
  c_ignore :: "jval list"

text \<open>
  A row of the filtered table: the dictionary with the keys \<^verbatim>\<open>symbol\<close>, \<^verbatim>\<open>% 24h\<close>,
  \<^verbatim>\<open>last_price\<close>, \<^verbatim>\<open>volume (USDT)\<close> and \<^verbatim>\<open>listed_date\<close>.
\<close>

record filtered_row =
  row_symbol :: string
  pct_24h :: pyfloat
  last_price :: pyfloat
  volume_usdt :: pyfloat
  listed_date :: string

text \<open>The query parameters of a candle request.\<close>

record kparams =
  p_symbol :: string
  p_interval :: string
  p_limit :: int
  p_startTime :: "int option"

datatype request = GetExchangeInfo | GetTicker24h | GetKlines kparams

text \<open>
  The network as one run of the script meets it: the answer to each of the three GET
  requests.
\<close>

record network =
  exchange_info :: "symbol_info list response"
  ticker_24h :: "ticker list response"
  klines :: "kparams \<Rightarrow> kline list response"

text \<open>
  The library functions that the script calls and that are not part of the
  repository, taken as parameters:
  \<^item> \<open>py_float\<close>: Python's \<^verbatim>\<open>float\<close> on a string; \<open>None\<close> where it raises
    \<^verbatim>\<open>ValueError\<close>. It returns not-a-number and the infinities for the strings that
    name them;
  \<^item> \<open>pd_to_numeric\<close>: \<^verbatim>\<open>pd.to_numeric(column, errors="coerce")\<close> on a whole column;
    with this \<^verbatim>\<open>errors\<close> mode it does not raise;
  \<^item> \<open>pd_to_datetime\<close>: \<^verbatim>\<open>pd.to_datetime(column, unit="ms")\<close> on a whole column;
    \<open>None\<close> where it raises;
  \<^item> \<open>utc_dmy\<close>: \<^verbatim>\<open>datetime.utcfromtimestamp(ts / 1000).strftime("%d/%m/%Y")\<close>;
    \<open>None\<close> where any step of it raises;
  \<^item> \<open>tie_order\<close>: the order in which the sort of pandas leaves two rows of equal
    key, which its default algorithm does not fix: for the rows given to the sort,
    whether the first of two rows comes before the second.
\<close>

record lib =
  py_float :: "string \<Rightarrow> pyfloat option"
  pd_to_numeric :: "jval list \<Rightarrow> pyfloat list"
  pd_to_datetime :: "jval list \<Rightarrow> instant list option"
  utc_dmy :: "jval \<Rightarrow> string option"
  tie_order :: "filtered_row list \<Rightarrow> filtered_row \<Rightarrow> filtered_row \<Rightarrow> bool"

text \<open>
  The state that outlives a run of the script: the three session entries
  (\<^verbatim>\<open>"filtered_df" not in st.session_state\<close> is \<open>None\<close>), the two stores of
  \<^verbatim>\<open>st.cache_data\<close> with the time each value was stored at, and the log of the HTTP
  requests issued so far, which is how the model observes a network round trip.
\<close>

record state =
  symbols_cache :: "symbol_info list option"
  candle_cache :: "string \<rightharpoonup> frame"
  filtered_df :: "filtered_row list option"
  exchange_memo :: "(nat \<times> symbol_info list) option"
  tickers_memo :: "(nat \<times> ticker list) option"
  requests :: "request list"

definition initial_state :: state where
  "initial_state =
     \<lparr>symbols_cache = None, candle_cache = Map.empty, filtered_df = None,
      exchange_memo = None, tickers_memo = None, requests = []\<rparr>"

definition INTERVAL_MAP :: "(string \<times> string) list" where
  "INTERVAL_MAP =
     [(''M1'', ''1m''), (''M15'', ''15m''), (''M30'', ''30m''), (''H1'', ''1h''),
      (''H4'', ''4h''), (''D1'', ''1d''), (''W1'', ''1w'')]"

section \<open>Fetch functions\<close>

definition raise_for_status :: "nat \<Rightarrow> bool" where
  "raise_for_status code \<longleftrightarrow> 400 \<le> code \<and> code < 600"

definition send :: "request \<Rightarrow> state \<Rightarrow> state" where
  "send rq st = st\<lparr>requests := requests st @ [rq]\<rparr>"

text \<open>
  The body of a GET followed by \<^verbatim>\<open>r.raise_for_status()\<close> and \<^verbatim>\<open>r.json()\<close>.
\<close>

definition get_json :: "'a response \<Rightarrow> py_error + 'a" where
  "get_json r =
     (case r of
        Raised \<Rightarrow> Inl RequestException
      | Response code body \<Rightarrow>
          if raise_for_status code then Inl (HTTPError code)
          else (case body of None \<Rightarrow> Inl JSONDecodeError | Some v \<Rightarrow> Inr v))"

text \<open>
  \<^verbatim>\<open>@st.cache_data(ttl=...)\<close>: a value stored at time \<open>t0\<close> is served while it is
  younger than the time to live; otherwise the function body runs, and its value is
  stored when it returns (an exception stores nothing).
\<close>

definition cache_fresh :: "nat \<Rightarrow> nat \<Rightarrow> nat \<Rightarrow> bool" where
  "cache_fresh ttl t0 now \<longleftrightarrow> now < t0 + ttl"

definition is_perpetual_usdt :: "symbol_info \<Rightarrow> bool" where
  "is_perpetual_usdt s \<longleftrightarrow>
     quoteAsset s = ''USDT'' \<and> contractType s = ''PERPETUAL'' \<and> status s = ''TRADING''"

definition fetch_exchange_symbols_body :: "network \<Rightarrow> state \<Rightarrow> (py_error + symbol_info list) \<times> state" where
  "fetch_exchange_symbols_body net st =
     (case get_json (exchange_info net) of
        Inl e \<Rightarrow> (Inl e, send GetExchangeInfo st)
      | Inr syms \<Rightarrow> (Inr (filter is_perpetual_usdt syms), send GetExchangeInfo st))"

definition fetch_exchange_symbols :: "network \<Rightarrow> nat \<Rightarrow> state \<Rightarrow> (py_error + symbol_info list) \<times> state" where
  "fetch_exchange_symbols net now st =
     (case exchange_memo st of
        Some (t0, v) \<Rightarrow>
          if cache_fresh 300 t0 now then (Inr v, st)
          else (case fetch_exchange_symbols_body net st of
                  (Inl e, st1) \<Rightarrow> (Inl e, st1)
                | (Inr v1, st1) \<Rightarrow> (Inr v1, st1\<lparr>exchange_memo := Some (now, v1)\<rparr>))
      | None \<Rightarrow>
          (case fetch_exchange_symbols_body net st of
             (Inl e, st1) \<Rightarrow> (Inl e, st1)
           | (Inr v1, st1) \<Rightarrow> (Inr v1, st1\<lparr>exchange_memo := Some (now, v1)\<rparr>)))"

definition fetch_all_tickers_24h_body :: "network \<Rightarrow> state \<Rightarrow> (py_error + ticker list) \<times> state" where
  "fetch_all_tickers_24h_body net st =
     (case get_json (ticker_24h net) of
        Inl e \<Rightarrow> (Inl e, send GetTicker24h st)
      | Inr ts \<Rightarrow> (Inr ts, send GetTicker24h st))"

definition fetch_all_tickers_24h :: "network \<Rightarrow> nat \<Rightarrow> state \<Rightarrow> (py_error + ticker list) \<times> state" where
  "fetch_all_tickers_24h net now st =
     (case tickers_memo st of
        Some (t0, v) \<Rightarrow>
          if cache_fresh 12 t0 now then (Inr v, st)
          else (case fetch_all_tickers_24h_body net st of
                  (Inl e, st1) \<Rightarrow> (Inl e, st1)
                | (Inr v1, st1) \<Rightarrow> (Inr v1, st1\<lparr>tickers_memo := Some (now, v1)\<rparr>))
      | None \<Rightarrow>
          (case fetch_all_tickers_24h_body net st of
             (Inl e, st1) \<Rightarrow> (Inl e, st1)
           | (Inr v1, st1) \<Rightarrow> (Inr v1, st1\<lparr>tickers_memo := Some (now, v1)\<rparr>)))"

section \<open>The candle fetcher and its cache\<close>

definition cache_key :: "string \<Rightarrow> string \<Rightarrow> string" where
  "cache_key symb interval = symb @ ''_'' @ interval"

text \<open>
  \<^verbatim>\<open>pd.DataFrame(arr, columns=[...])\<close> and the conversions of its columns, in the
  order of the source: the five numeric columns, then \<^verbatim>\<open>openTime\<close>, then
  \<^verbatim>\<open>closeTime\<close>. Only the conversion of a time column can raise.
\<close>

definition build_frame :: "lib \<Rightarrow> kline list \<Rightarrow> py_error + frame" where
  "build_frame L arr =
     (let opens = pd_to_numeric L (map k_open arr);
          highs = pd_to_numeric L (map k_high arr);
          lows = pd_to_numeric L (map k_low arr);
          volumes = pd_to_numeric L (map k_volume arr);
          closes = pd_to_numeric L (map k_close arr)
      in case pd_to_datetime L (map k_openTime arr) of
           None \<Rightarrow> Inl DateParseError
         | Some ot \<Rightarrow>
             (case pd_to_datetime L (map k_closeTime arr) of
                None \<Rightarrow> Inl DateParseError
              | Some ct \<Rightarrow>
                  Inr \<lparr>c_openTime = ot, c_open = opens, c_high = highs, c_low = lows,
                       c_close = closes, c_volume = volumes, c_closeTime = ct,
                       c_quoteAssetVolume = map k_quoteAssetVolume arr,
                       c_nbrTrades = map k_nbrTrades arr,
                       c_takerBuyBase = map k_takerBuyBase arr,
                       c_takerBuyQuote = map k_takerBuyQuote arr,
                       c_ignore = map k_ignore arr\<rparr>))"

text \<open>
  \<^verbatim>\<open>params = {"symbol": symbol, "interval": interval, "limit": limit}\<close>: the request
  of the candle fetcher has no start time.
\<close>

definition chart_params :: "string \<Rightarrow> string \<Rightarrow> int \<Rightarrow> kparams" where
  "chart_params symb interval limit =
     \<lparr>p_symbol = symb, p_interval = interval, p_limit = limit, p_startTime = None\<rparr>"

definition get_klines_cached ::
  "lib \<Rightarrow> network \<Rightarrow> string \<Rightarrow> string \<Rightarrow> int \<Rightarrow> state \<Rightarrow> (py_error + frame) \<times> state" where
  "get_klines_cached L net symb interval limit st =
     (case candle_cache st (cache_key symb interval) of
        Some df \<Rightarrow> (Inr df, st)
      | None \<Rightarrow>
          (let params = chart_params symb interval limit;
               st1 = send (GetKlines params) st
           in case get_json (klines net params) of
                Inl e \<Rightarrow> (Inl e, st1)
              | Inr arr \<Rightarrow>
                  (case build_frame L arr of
                     Inl e \<Rightarrow> (Inl e, st1)
                   | Inr df \<Rightarrow>
                       (Inr df, st1\<lparr>candle_cache := (candle_cache st1)(cache_key symb interval \<mapsto> df)\<rparr>))))"

section \<open>The refresh cycle\<close>

text \<open>
  The listing date of one symbol: the first daily candle ever, asked for inside
  \<^verbatim>\<open>try\<close> with a bare \<^verbatim>\<open>except\<close>, so that every failure ends in \<^verbatim>\<open>"N/A"\<close>.
  The status is tested before the body is read.
\<close>

definition listing_params :: "string \<Rightarrow> kparams" where
  "listing_params symb = \<lparr>p_symbol = symb, p_interval = ''1d'', p_limit = 1, p_startTime = Some 0\<rparr>"

definition listing_date :: "lib \<Rightarrow> network \<Rightarrow> string \<Rightarrow> string" where
  "listing_date L net symb =
     (case klines net (listing_params symb) of
        Raised \<Rightarrow> ''N/A''
      | Response code body \<Rightarrow>
          if code = 200 then
            (case body of
               None \<Rightarrow> ''N/A''
             | Some arr \<Rightarrow>
                 (case arr of
                    [] \<Rightarrow> ''N/A''
                  | k # _ \<Rightarrow> (case utc_dmy L (k_openTime k) of None \<Rightarrow> ''N/A'' | Some d \<Rightarrow> d)))
          else ''N/A'')"

text \<open>
  \<^verbatim>\<open>tick_map = {t["symbol"]: t for t in tickers}\<close>: a later ticker of the same symbol
  replaces an earlier one.
\<close>

definition tick_map :: "ticker list \<Rightarrow> (string \<rightharpoonup> ticker)" where
  "tick_map tickers = foldl (\<lambda>m t. m(t_symbol t \<mapsto> t)) Map.empty tickers"

text \<open>
  The loop over \<^verbatim>\<open>symbol_list\<close>. A symbol without ticker is skipped, one for which
  \<^verbatim>\<open>pct >= 0\<close> holds is skipped, and the others get their listing date and are
  appended to \<^verbatim>\<open>rows\<close>. The three \<^verbatim>\<open>float\<close> calls are outside the \<^verbatim>\<open>try\<close>: their
  \<^verbatim>\<open>ValueError\<close> ends the loop and the run.
\<close>

fun filter_loop ::
  "lib \<Rightarrow> network \<Rightarrow> (string \<rightharpoonup> ticker) \<Rightarrow> string list \<Rightarrow> filtered_row list \<Rightarrow> state
     \<Rightarrow> (py_error + filtered_row list) \<times> state" where
  "filter_loop L net tm [] rows st = (Inr rows, st)"
| "filter_loop L net tm (symb # syms) rows st =
     (case tm symb of
        None \<Rightarrow> filter_loop L net tm syms rows st
      | Some t \<Rightarrow>
          (case py_float L (priceChangePercent t) of
             None \<Rightarrow> (Inl ValueError, st)
           | Some pct \<Rightarrow>
               if f_le (Fin 0) pct then filter_loop L net tm syms rows st
               else
                 (let listed = listing_date L net symb;
                      st1 = send (GetKlines (listing_params symb)) st
                  in case py_float L (lastPrice t) of
                       None \<Rightarrow> (Inl ValueError, st1)
                     | Some lp \<Rightarrow>
                         (case py_float L (quoteVolume t) of
                            None \<Rightarrow> (Inl ValueError, st1)
                          | Some qv \<Rightarrow>
                              filter_loop L net tm syms
                                (rows @ [\<lparr>row_symbol = symb, pct_24h = pct, last_price = lp,
                                          volume_usdt = qv, listed_date = listed\<rparr>]) st1))))"

text \<open>
  \<^verbatim>\<open>pd.DataFrame(rows).sort_values("% 24h").reset_index(drop=True)\<close>. The columns of
  the table are the keys of the dictionaries in \<^verbatim>\<open>rows\<close>, so the table made from the
  empty list has no column and sorting it by \<^verbatim>\<open>"% 24h"\<close> raises \<^verbatim>\<open>KeyError\<close>.
  Otherwise pandas sorts the rows whose key is a number in ascending order and puts
  the rows whose key is not-a-number after them, in the order they had; the position
  in the list is the new index. Among rows of equal key the order is the library's
  (\<open>tie_order\<close>): \<open>before\<close> says when a row is put in front of another.
\<close>

definition before :: "(filtered_row \<Rightarrow> filtered_row \<Rightarrow> bool) \<Rightarrow> filtered_row \<Rightarrow> filtered_row \<Rightarrow> bool" where
  "before tie x y \<longleftrightarrow>
     f_lt (pct_24h x) (pct_24h y) \<or> (f_le (pct_24h x) (pct_24h y) \<and> tie x y)"

fun insert_row :: "(filtered_row \<Rightarrow> filtered_row \<Rightarrow> bool) \<Rightarrow> filtered_row \<Rightarrow> filtered_row list \<Rightarrow> filtered_row list" where
  "insert_row tie x [] = [x]"
| "insert_row tie x (y # ys) = (if before tie x y then x # y # ys else y # insert_row tie x ys)"

fun sort_rows :: "(filtered_row \<Rightarrow> filtered_row \<Rightarrow> bool) \<Rightarrow> filtered_row list \<Rightarrow> filtered_row list" where
  "sort_rows tie [] = []"
| "sort_rows tie (x # xs) = insert_row tie x (sort_rows tie xs)"

definition sort_values :: "lib \<Rightarrow> filtered_row list \<Rightarrow> py_error + filtered_row list" where
  "sort_values L rows =
     (if rows = [] then Inl (KeyError ''% 24h'')
      else Inr (sort_rows (tie_order L rows) (filter (\<lambda>r. \<not> is_nan (pct_24h r)) rows) @
                filter (\<lambda>r. is_nan (pct_24h r)) rows))"

text \<open>
  The block under \<^verbatim>\<open>if need_reload:\<close>. The result is the exception that ended it, if
  any, and the state it leaves. \<^verbatim>\<open>max_symbols\<close> comes from a number input with the
  bounds 1 and 2000, so the slice \<^verbatim>\<open>[:max_symbols]\<close> takes a prefix.
\<close>

definition load_symbols :: "network \<Rightarrow> nat \<Rightarrow> bool \<Rightarrow> state \<Rightarrow> (py_error + symbol_info list) \<times> state" where
  "load_symbols net now refresh st =
     (case (if refresh then None else symbols_cache st) of
        Some v \<Rightarrow> (Inr v, st)
      | None \<Rightarrow>
          (case fetch_exchange_symbols net now st of
             (Inl e, st1) \<Rightarrow> (Inl e, st1)
           | (Inr v, st1) \<Rightarrow> (Inr v, st1\<lparr>symbols_cache := Some v\<rparr>)))"

definition reload ::
  "lib \<Rightarrow> network \<Rightarrow> nat \<Rightarrow> bool \<Rightarrow> nat \<Rightarrow> state \<Rightarrow> py_error option \<times> state" where
  "reload L net now refresh max_symbols st =
     (case load_symbols net now refresh st of
        (Inl e, st1) \<Rightarrow> (Some e, st1)
      | (Inr cache, st1) \<Rightarrow>
          (let symbols_info = take max_symbols cache;
               symbol_list = map symbol symbols_info
           in case fetch_all_tickers_24h net now st1 of
                (Inl e, st2) \<Rightarrow> (Some e, st2)
              | (Inr tickers, st2) \<Rightarrow>
                  (case filter_loop L net (tick_map tickers) symbol_list [] st2 of
                     (Inl e, st3) \<Rightarrow> (Some e, st3)
                   | (Inr rows, st3) \<Rightarrow>
                       (case sort_values L rows of
                          Inl e \<Rightarrow> (Some e, st3)
                        | Inr df \<Rightarrow> (None, st3\<lparr>filtered_df := Some df\<rparr>)))))"

text \<open>
  One run of the script up to the table: \<^verbatim>\<open>need_reload = refresh or auto_refresh\<close>.
\<close>

definition run_script ::
  "lib \<Rightarrow> network \<Rightarrow> nat \<Rightarrow> bool \<Rightarrow> bool \<Rightarrow> nat \<Rightarrow> state \<Rightarrow> py_error option \<times> state" where
  "run_script L net now refresh auto_refresh max_symbols st =
     (if refresh \<or> auto_refresh then reload L net now refresh max_symbols st else (None, st))"

section \<open>A session\<close>

text \<open>
  What happens in a session, one interaction after the other: a run of the script
  with its inputs, or a call of the candle fetcher for the chart. Each acts on the
  state it finds; an exception ends the run and leaves the state as it was by then.
\<close>

datatype action =
    Script network nat bool bool nat
  | Chart network string string int

fun do_action :: "lib \<Rightarrow> action \<Rightarrow> state \<Rightarrow> state" where
  "do_action L (Script net now refresh auto_refresh max_symbols) st =
     snd (run_script L net now refresh auto_refresh max_symbols st)"
| "do_action L (Chart net symb interval limit) st =
     snd (get_klines_cached L net symb interval limit st)"

fun session :: "lib \<Rightarrow> action list \<Rightarrow> state \<Rightarrow> state" where
  "session L [] st = st"
| "session L (a # acts) st = session L acts (do_action L a st)"

section \<open>Notions of the specification\<close>

text \<open>
  A candidate symbol qualifies when the ticker snapshot has it and its 24h percent
  change is a number below zero.
\<close>

definition qualifies :: "lib \<Rightarrow> (string \<rightharpoonup> ticker) \<Rightarrow> string \<Rightarrow> bool" where
  "qualifies L tm symb \<longleftrightarrow>
     (case tm symb of
        None \<Rightarrow> False
      | Some t \<Rightarrow> (case py_float L (priceChangePercent t) of
                    None \<Rightarrow> False
                  | Some pct \<Rightarrow> f_lt pct (Fin 0)))"

text \<open>
  A candidate symbol survives the ticker join and the filter when the ticker snapshot
  has it and the test \<^verbatim>\<open>pct >= 0\<close> of the loop is false for its percent change.
\<close>

definition survives :: "lib \<Rightarrow> (string \<rightharpoonup> ticker) \<Rightarrow> string \<Rightarrow> bool" where
  "survives L tm symb \<longleftrightarrow>
     (case tm symb of
        None \<Rightarrow> False
      | Some t \<Rightarrow> (case py_float L (priceChangePercent t) of
                    None \<Rightarrow> False
                  | Some pct \<Rightarrow> \<not> f_le (Fin 0) pct))"

text \<open>A ticker is well formed when \<^verbatim>\<open>float\<close> reads its three numeric fields.\<close>

definition well_formed :: "lib \<Rightarrow> ticker \<Rightarrow> bool" where
  "well_formed L t \<longleftrightarrow>
     py_float L (priceChangePercent t) \<noteq> None \<and> py_float L (lastPrice t) \<noteq> None \<and>
     py_float L (quoteVolume t) \<noteq> None"

text \<open>The row that one pass of the loop body appends for a symbol, if it appends one.\<close>

definition row_of :: "lib \<Rightarrow> network \<Rightarrow> (string \<rightharpoonup> ticker) \<Rightarrow> string \<Rightarrow> filtered_row option" where
  "row_of L net tm symb =
     (case tm symb of
        None \<Rightarrow> None
      | Some t \<Rightarrow>
          (case py_float L (priceChangePercent t) of
             None \<Rightarrow> None
           | Some pct \<Rightarrow>
               if f_le (Fin 0) pct then None
               else (case py_float L (lastPrice t) of
                       None \<Rightarrow> None
                     | Some lp \<Rightarrow>
                         (case py_float L (quoteVolume t) of
                            None \<Rightarrow> None
                          | Some qv \<Rightarrow>
                              Some \<lparr>row_symbol = symb, pct_24h = pct, last_price = lp,
                                    volume_usdt = qv, listed_date = listing_date L net symb\<rparr>))))"

text \<open>
  The listing-date lookup of a symbol fails: the request raises, the status is not
  200, or the response is empty (or is no JSON at all).
\<close>

definition lookup_failed :: "network \<Rightarrow> string \<Rightarrow> bool" where
  "lookup_failed net symb \<longleftrightarrow>
     (case klines net (listing_params symb) of
        Raised \<Rightarrow> True
      | Response code body \<Rightarrow> code \<noteq> 200 \<or> body = Some [] \<or> body = None)"

text \<open>The lookup succeeds with the date \<open>d\<close>.\<close>

definition lookup_gives :: "lib \<Rightarrow> network \<Rightarrow> string \<Rightarrow> string \<Rightarrow> bool" where
  "lookup_gives L net symb d \<longleftrightarrow>
     (case klines net (listing_params symb) of
        Raised \<Rightarrow> False
      | Response code body \<Rightarrow>
          code = 200 \<and>
          (case body of
             None \<Rightarrow> False
           | Some arr \<Rightarrow> (case arr of [] \<Rightarrow> False | k # _ \<Rightarrow> utc_dmy L (k_openTime k) = Some d)))"

text \<open>
  A fetch fails, with the exception it raises: the request raises, or the status is an
  HTTP error status, from 400 to 599, or the body is no JSON.
\<close>

definition failure :: "'a response \<Rightarrow> py_error option" where
  "failure r =
     (case r of
        Raised \<Rightarrow> Some RequestException
      | Response code body \<Rightarrow>
          if 400 \<le> code \<and> code < 600 then Some (HTTPError code)
          else if body = None then Some JSONDecodeError else None)"

text \<open>
  A cached value has expired at the time \<open>now\<close>, or there is none: the next call of the
  cached function runs its body.
\<close>

definition expired :: "nat \<Rightarrow> nat \<Rightarrow> (nat \<times> 'a) option \<Rightarrow> bool" where
  "expired ttl now memo \<longleftrightarrow> (case memo of None \<Rightarrow> True | Some (t0, v) \<Rightarrow> t0 + ttl \<le> now)"

text \<open>
  The wire intervals of \<open>INTERVAL_MAP\<close>: the only intervals that the script passes to
  the candle fetcher. In a session of the script every chart call has one of them.
\<close>

definition wire_intervals :: "string list" where
  "wire_intervals = map snd INTERVAL_MAP"

fun chart_of_script :: "action \<Rightarrow> bool" where
  "chart_of_script (Script net now refresh auto_refresh max_symbols) = True"
| "chart_of_script (Chart net symb interval limit) = (interval \<in> set wire_intervals)"

section \<open>A concrete session\<close>

text \<open>
  An instance on which the properties below are evaluated. The exchange lists the
  perpetual contracts CCC, BBB, AAA and DDD, in this order, and a quarterly contract;
  the ticker snapshot has AAA at -5.0, BBB at +2.0 and CCC at -1.0 and nothing for
  DDD. The listing-date lookup answers for CCC and times out for every other symbol.
\<close>

definition demo_float :: "string \<Rightarrow> pyfloat option" where
  "demo_float s =
     (if s = ''-5.0'' then Some (Fin (-5)) else if s = ''2.0'' then Some (Fin 2)
      else if s = ''-1.0'' then Some (Fin (-1)) else if s = ''0.5'' then Some (Fin (1 / 2))
      else if s = ''100'' then Some (Fin 100) else if s = ''nan'' then Some NaN else None)"

definition demo_numeric :: "jval list \<Rightarrow> pyfloat list" where
  "demo_numeric col =
     map (\<lambda>v. case v of
                 JNum x \<Rightarrow> Fin x
               | JStr s \<Rightarrow> (case demo_float s of None \<Rightarrow> NaN | Some x \<Rightarrow> x)
               | JNull \<Rightarrow> NaN) col"

definition demo_datetime :: "jval list \<Rightarrow> instant list option" where
  "demo_datetime col =
     Some (map (\<lambda>v. case v of JNum x \<Rightarrow> Instant \<lfloor>x\<rfloor> | JStr s \<Rightarrow> NaT | JNull \<Rightarrow> NaT) col)"

definition demo_dmy :: "jval \<Rightarrow> string option" where
  "demo_dmy v = (case v of JNum x \<Rightarrow> (if x = 1567900800000 then Some ''08/09/2019'' else None)
                 | JStr s \<Rightarrow> None | JNull \<Rightarrow> None)"

definition demo_lib :: lib where
  "demo_lib = \<lparr>py_float = demo_float, pd_to_numeric = demo_numeric,
               pd_to_datetime = demo_datetime, utc_dmy = demo_dmy,
               tie_order = (\<lambda>rows x y. True)\<rparr>"

definition perp :: "string \<Rightarrow> symbol_info" where
  "perp s = \<lparr>symbol = s, quoteAsset = ''USDT'', contractType = ''PERPETUAL'', status = ''TRADING''\<rparr>"

definition demo_symbols :: "symbol_info list" where
  "demo_symbols =
     [perp ''CCC'',
      \<lparr>symbol = ''QQQ_240628'', quoteAsset = ''USDT'', contractType = ''CURRENT_QUARTER'',
       status = ''TRADING''\<rparr>,
      perp ''BBB'', perp ''AAA'', perp ''DDD'']"

definition tick :: "string \<Rightarrow> string \<Rightarrow> ticker" where
  "tick s p = \<lparr>t_symbol = s, priceChangePercent = p, lastPrice = ''100'', quoteVolume = ''0.5''\<rparr>"

definition demo_tickers :: "ticker list" where
  "demo_tickers = [tick ''AAA'' ''-5.0'', tick ''BBB'' ''2.0'', tick ''CCC'' ''-1.0'']"

definition demo_kline :: "jval \<Rightarrow> jval \<Rightarrow> kline" where
  "demo_kline t ov =
     \<lparr>k_openTime = t, k_open = ov, k_high = JStr ''100'', k_low = JNull,
      k_close = JStr ''0.5'', k_volume = JNum 7, k_closeTime = t,
      k_quoteAssetVolume = JStr ''0'', k_nbrTrades = JNum 3, k_takerBuyBase = JStr ''0'',
      k_takerBuyQuote = JStr ''0'', k_ignore = JStr ''0''\<rparr>"

definition demo_klines :: "kparams \<Rightarrow> kline list response" where
  "demo_klines p =
     (if p_startTime p = Some 0 then
        (if p_symbol p = ''CCC'' then Response 200 (Some [demo_kline (JNum 1567900800000) (JStr ''100'')])
         else Raised)
      else Response 200 (Some [demo_kline (JNum 1567900800000) (JStr ''abc''),
                               demo_kline (JNum 1567904400000) (JStr ''100'')]))"

definition demo_net :: network where
  "demo_net = \<lparr>exchange_info = Response 200 (Some demo_symbols),
               ticker_24h = Response 200 (Some demo_tickers),
               klines = demo_klines\<rparr>"

text \<open>The same exchange some time later: the metadata has changed, the tickers time out.\<close>

definition later_net :: network where
  "later_net = \<lparr>exchange_info = Response 200 (Some [perp ''EEE'']),
                ticker_24h = Raised,
                klines = (\<lambda>p. Response 200 (Some []))\<rparr>"

definition down_net :: network where
  "down_net = \<lparr>exchange_info = Response 503 None, ticker_24h = Raised, klines = (\<lambda>p. Raised)\<rparr>"

text \<open>The exchange answering the metadata request with the status 302 and the list.\<close>

definition moved_net :: network where
  "moved_net = \<lparr>exchange_info = Response 302 (Some demo_symbols),
                ticker_24h = Response 200 (Some demo_tickers),
                klines = demo_klines\<rparr>"

text \<open>The exchange sending \<^verbatim>\<open>"nan"\<close> as the percent change of BBB.\<close>

definition nan_tickers :: "ticker list" where
  "nan_tickers = [tick ''AAA'' ''-5.0'', tick ''BBB'' ''nan'', tick ''CCC'' ''-1.0'']"

definition nan_net :: network where
  "nan_net = \<lparr>exchange_info = Response 200 (Some demo_symbols),
              ticker_24h = Response 200 (Some nan_tickers),
              klines = demo_klines\<rparr>"

definition row_AAA :: filtered_row where
  "row_AAA = \<lparr>row_symbol = ''AAA'', pct_24h = Fin (-5), last_price = Fin 100,
              volume_usdt = Fin (1 / 2), listed_date = ''N/A''\<rparr>"

definition row_CCC :: filtered_row where
  "row_CCC = \<lparr>row_symbol = ''CCC'', pct_24h = Fin (-1), last_price = Fin 100,
              volume_usdt = Fin (1 / 2), listed_date = ''08/09/2019''\<rparr>"

definition row_BBB :: filtered_row where
  "row_BBB = \<lparr>row_symbol = ''BBB'', pct_24h = NaN, last_price = Fin 100,
              volume_usdt = Fin (1 / 2), listed_date = ''N/A''\<rparr>"

definition demo_perps :: "symbol_info list" where
  "demo_perps = [perp ''CCC'', perp ''BBB'', perp ''AAA'', perp ''DDD'']"

text \<open>
  The state after the first refresh of the concrete session, at time 1000, with
  \<open>max_symbols = 4\<close>: the loop appends the row of CCC and then that of AAA, and the
  sort puts AAA first.
\<close>

definition demo_state :: state where
  "demo_state =
     \<lparr>symbols_cache = Some demo_perps, candle_cache = Map.empty,
      filtered_df = Some [row_AAA, row_CCC],
      exchange_memo = Some (1000, demo_perps), tickers_memo = Some (1000, demo_tickers),
      requests = [GetExchangeInfo, GetTicker24h, GetKlines (listing_params ''CCC''),
                  GetKlines (listing_params ''AAA'')]\<rparr>"

text \<open>An hour in which nothing fell: the only ticker is that of BBB, at +2.0.\<close>

definition flat_net :: network where
  "flat_net = \<lparr>exchange_info = Response 200 (Some demo_symbols),
               ticker_24h = Response 200 (Some [tick ''BBB'' ''2.0'']),
               klines = demo_klines\<rparr>"

text \<open>The table that the candle fetcher builds from the answer of \<open>demo_klines\<close>.\<close>

definition demo_frame :: frame where
  "demo_frame =
     \<lparr>c_openTime = [Instant 1567900800000, Instant 1567904400000],
      c_open = [NaN, Fin 100], c_high = [Fin 100, Fin 100], c_low = [NaN, NaN],
      c_close = [Fin (1 / 2), Fin (1 / 2)], c_volume = [Fin 7, Fin 7],
      c_closeTime = [Instant 1567900800000, Instant 1567904400000],
      c_quoteAssetVolume = [JStr ''0'', JStr ''0''], c_nbrTrades = [JNum 3, JNum 3],
      c_takerBuyBase = [JStr ''0'', JStr ''0''], c_takerBuyQuote = [JStr ''0'', JStr ''0''],
      c_ignore = [JStr ''0'', JStr ''0'']\<rparr>"

text \<open>The initial state after one call of the candle fetcher for a symbol and interval.\<close>

definition charted :: "string \<Rightarrow> string \<Rightarrow> int \<Rightarrow> state" where
  "charted symb interval limit =
     initial_state\<lparr>candle_cache := [cache_key symb interval \<mapsto> demo_frame],
                   requests := [GetKlines (chart_params symb interval limit)]\<rparr>"

section \<open>Properties\<close>

subsection \<open>Floats\<close>

lemma f_lt_zero_not_ge: "f_lt p (Fin 0) \<Longrightarrow> \<not> f_le (Fin 0) p"
  by (simp add: f_lt_def)

lemma qualifies_survives: "qualifies L tm s \<Longrightarrow> survives L tm s"
  by (auto simp: qualifies_def survives_def f_lt_def split: option.splits)

subsection \<open>The loop\<close>

lemma filter_loop_Cons_success:
  "filter_loop L net tm (s # syms) rows st = (Inr rows', st') \<Longrightarrow>
     (row_of L net tm s = None \<and> \<not> survives L tm s \<and>
        filter_loop L net tm syms rows st = (Inr rows', st')) \<or>
     (\<exists>r. row_of L net tm s = Some r \<and>
        filter_loop L net tm syms (rows @ [r]) (send (GetKlines (listing_params s)) st) = (Inr rows', st'))"
  by (auto simp: row_of_def survives_def Let_def split: option.splits if_splits)

lemma filter_loop_rows:
  "filter_loop L net tm syms rows st = (Inr rows', st') \<Longrightarrow>
     rows' = rows @ List.map_filter (row_of L net tm) syms"
proof (induction syms arbitrary: rows st)
  case Nil
  then show ?case by simp
next
  case (Cons s syms)
  from filter_loop_Cons_success[OF Cons.prems] show ?case
  proof (elim disjE conjE exE)
    assume r: "row_of L net tm s = None"
      and loop: "filter_loop L net tm syms rows st = (Inr rows', st')"
    from Cons.IH[OF loop] r show ?thesis by simp
  next
    fix r
    assume r: "row_of L net tm s = Some r"
      and loop: "filter_loop L net tm syms (rows @ [r]) (send (GetKlines (listing_params s)) st) = (Inr rows', st')"
    from Cons.IH[OF loop] r show ?thesis by simp
  qed
qed

lemma filter_loop_survivors:
  "filter_loop L net tm syms rows st = (Inr rows', st') \<Longrightarrow> s \<in> set syms \<Longrightarrow>
     survives L tm s \<Longrightarrow> row_of L net tm s \<noteq> None"
proof (induction syms arbitrary: rows st)
  case Nil
  then show ?case by simp
next
  case (Cons a syms)
  from filter_loop_Cons_success[OF Cons.prems(1)] show ?case
    using Cons.IH Cons.prems(2,3) by auto
qed

lemma row_of_Some:
  "row_of L net tm s = Some r \<Longrightarrow>
     survives L tm s \<and> row_symbol r = s \<and> \<not> f_le (Fin 0) (pct_24h r) \<and>
     listed_date r = listing_date L net s"
  by (auto simp: row_of_def survives_def split: option.splits if_splits)

lemma symbols_of_rows:
  "(\<And>s. s \<in> set syms \<Longrightarrow> survives L tm s \<Longrightarrow> row_of L net tm s \<noteq> None) \<Longrightarrow>
     map row_symbol (List.map_filter (row_of L net tm) syms) = filter (survives L tm) syms"
proof (induction syms)
  case Nil
  then show ?case by simp
next
  case (Cons a syms)
  have IH: "map row_symbol (List.map_filter (row_of L net tm) syms) = filter (survives L tm) syms"
    using Cons by simp
  show ?case
  proof (cases "row_of L net tm a")
    case None
    then have "\<not> survives L tm a" using Cons.prems[of a] by auto
    with None IH show ?thesis by simp
  next
    case (Some r)
    with row_of_Some[OF Some] IH show ?thesis by simp
  qed
qed

lemma filter_loop_symbols:
  assumes "filter_loop L net tm syms [] st = (Inr rows, st')"
  shows "map row_symbol rows = filter (survives L tm) syms"
proof -
  from filter_loop_rows[OF assms] have "rows = List.map_filter (row_of L net tm) syms" by simp
  moreover have "map row_symbol (List.map_filter (row_of L net tm) syms) = filter (survives L tm) syms"
    using filter_loop_survivors[OF assms] by (intro symbols_of_rows)
  ultimately show ?thesis by simp
qed

text \<open>With well-formed tickers the loop runs to its end.\<close>

lemma filter_loop_completes:
  "(\<And>s t. tm s = Some t \<Longrightarrow> well_formed L t) \<Longrightarrow>
     \<exists>rows' st'. filter_loop L net tm syms rows st = (Inr rows', st')"
proof (induction syms arbitrary: rows st)
  case Nil
  then show ?case by simp
next
  case (Cons a syms)
  show ?case
  proof (cases "tm a")
    case None
    with Cons show ?thesis by simp
  next
    case (Some t)
    from Cons.prems[OF Some] obtain pct lp qv where
      p: "py_float L (priceChangePercent t) = Some pct"
      and l: "py_float L (lastPrice t) = Some lp"
      and q: "py_float L (quoteVolume t) = Some qv"
      by (auto simp: well_formed_def)
    show ?thesis
    proof (cases "f_le (Fin 0) pct")
      case True
      with Some p Cons show ?thesis by simp
    next
      case False
      from Cons.IH[of "rows @ [\<lparr>row_symbol = a, pct_24h = pct, last_price = lp,
                              volume_usdt = qv, listed_date = listing_date L net a\<rparr>]"
                      "send (GetKlines (listing_params a)) st"] Cons.prems
      show ?thesis using Some p l q False by (simp add: Let_def)
    qed
  qed
qed

lemma tick_map_member_aux:
  "foldl (\<lambda>m t. m(t_symbol t \<mapsto> t)) m0 tickers s = Some t \<Longrightarrow> t \<in> set tickers \<or> m0 s = Some t"
proof (induction tickers arbitrary: m0)
  case Nil
  then show ?case by simp
next
  case (Cons a tickers)
  from Cons.prems have "foldl (\<lambda>m t. m(t_symbol t \<mapsto> t)) (m0(t_symbol a \<mapsto> a)) tickers s = Some t"
    by (simp only: foldl.simps)
  from Cons.IH[OF this] show ?case by (auto split: if_splits)
qed

lemma tick_map_member: "tick_map tickers s = Some t \<Longrightarrow> t \<in> set tickers"
  using tick_map_member_aux[of Map.empty tickers s t] by (simp add: tick_map_def)

subsection \<open>The sort\<close>

lemma mset_insert_row: "mset (insert_row tie x ys) = add_mset x (mset ys)"
  by (induction ys) simp_all

lemma mset_sort_rows: "mset (sort_rows tie xs) = mset xs"
  by (induction xs) (simp_all add: mset_insert_row)

lemma mset_sort_values: "sort_values L rows = Inr df \<Longrightarrow> mset df = mset rows"
  by (auto simp: sort_values_def mset_sort_rows split: if_splits)

lemma set_sort_values: "sort_values L rows = Inr df \<Longrightarrow> set df = set rows"
  using mset_sort_values[of L rows df] by (metis set_mset_mset)

lemma length_sort_values: "sort_values L rows = Inr df \<Longrightarrow> length df = length rows"
  using mset_sort_values[of L rows df] by (metis size_mset)

lemma sort_values_nonempty: "rows \<noteq> [] \<Longrightarrow> \<exists>df. sort_values L rows = Inr df"
  by (simp add: sort_values_def)

lemma f_le_total: "x \<noteq> NaN \<Longrightarrow> y \<noteq> NaN \<Longrightarrow> f_le x y \<or> f_le y x"
  by (cases x; cases y) auto

lemma f_le_trans: "f_le x y \<Longrightarrow> f_le y z \<Longrightarrow> f_le x z"
  by (cases x; cases y; cases z) auto

lemma before_le: "before tie x y \<Longrightarrow> f_le (pct_24h x) (pct_24h y)"
  by (auto simp: before_def f_lt_def)

lemma not_before_le:
  "pct_24h x \<noteq> NaN \<Longrightarrow> pct_24h y \<noteq> NaN \<Longrightarrow> \<not> before tie x y \<Longrightarrow> f_le (pct_24h y) (pct_24h x)"
  using f_le_total[of "pct_24h x" "pct_24h y"] by (auto simp: before_def f_lt_def)

lemma set_insert_row: "set (insert_row tie x ys) = insert x (set ys)"
  by (induction ys) auto

lemma set_sort_rows: "set (sort_rows tie xs) = set xs"
  by (induction xs) (simp_all add: set_insert_row)

lemma sorted_insert_row:
  assumes "pct_24h x \<noteq> NaN" and "\<forall>y \<in> set ys. pct_24h y \<noteq> NaN"
    and "sorted_wrt (\<lambda>a b. f_le (pct_24h a) (pct_24h b)) ys"
  shows "sorted_wrt (\<lambda>a b. f_le (pct_24h a) (pct_24h b)) (insert_row tie x ys)"
  using assms
proof (induction ys)
  case Nil
  then show ?case by simp
next
  case (Cons y ys)
  show ?case
  proof (cases "before tie x y")
    case True
    then have xy: "f_le (pct_24h x) (pct_24h y)" by (rule before_le)
    have "\<forall>z \<in> set ys. f_le (pct_24h x) (pct_24h z)"
      using Cons.prems(3) xy by (auto intro: f_le_trans)
    with True xy Cons.prems(3) show ?thesis by simp
  next
    case False
    from Cons.prems have yx: "f_le (pct_24h y) (pct_24h x)"
      using not_before_le[of x y tie] False by simp
    from Cons.prems have "sorted_wrt (\<lambda>a b. f_le (pct_24h a) (pct_24h b)) (insert_row tie x ys)"
      by (intro Cons.IH) simp_all
    with False yx Cons.prems(3) show ?thesis by (auto simp: set_insert_row)
  qed
qed

lemma sorted_sort_rows:
  "\<forall>y \<in> set xs. pct_24h y \<noteq> NaN \<Longrightarrow>
     sorted_wrt (\<lambda>a b. f_le (pct_24h a) (pct_24h b)) (sort_rows tie xs)"
  by (induction xs) (simp_all add: sorted_insert_row set_sort_rows)

text \<open>
  What the sort gives: the rows whose percent change is a number, in ascending order,
  and after them the rows whose percent change is not a number.
\<close>

lemma sort_values_order:
  assumes "sort_values L rows = Inr df"
  shows "\<exists>nums nans. df = nums @ nans \<and>
           sorted_wrt (\<lambda>a b. f_le (pct_24h a) (pct_24h b)) nums \<and>
           (\<forall>r \<in> set nums. pct_24h r \<noteq> NaN) \<and> (\<forall>r \<in> set nans. pct_24h r = NaN)"
proof -
  let ?nums = "sort_rows (tie_order L rows) (filter (\<lambda>r. \<not> is_nan (pct_24h r)) rows)"
  let ?nans = "filter (\<lambda>r. is_nan (pct_24h r)) rows"
  from assms have "df = ?nums @ ?nans" by (auto simp: sort_values_def split: if_splits)
  moreover have "sorted_wrt (\<lambda>a b. f_le (pct_24h a) (pct_24h b)) ?nums"
    by (rule sorted_sort_rows) (simp add: is_nan_def)
  moreover have "\<forall>r \<in> set ?nums. pct_24h r \<noteq> NaN" by (simp add: set_sort_rows is_nan_def)
  moreover have "\<forall>r \<in> set ?nans. pct_24h r = NaN" by (simp add: is_nan_def)
  ultimately show ?thesis by blast
qed

subsection \<open>What a run leaves alone\<close>

lemma send_frame:
  "symbols_cache (send rq st) = symbols_cache st"
  "candle_cache (send rq st) = candle_cache st"
  "filtered_df (send rq st) = filtered_df st"
  "exchange_memo (send rq st) = exchange_memo st"
  "tickers_memo (send rq st) = tickers_memo st"
  by (simp_all add: send_def)

lemma filter_loop_frame:
  "filter_loop L net tm syms rows st = (res, st') \<Longrightarrow>
     candle_cache st' = candle_cache st \<and> filtered_df st' = filtered_df st"
proof (induction syms arbitrary: rows st)
  case Nil
  then show ?case by simp
next
  case (Cons a syms)
  show ?case
  proof (cases "tm a")
    case None
    with Cons show ?thesis by simp
  next
    case (Some t)
    show ?thesis
    proof (cases "py_float L (priceChangePercent t)")
      case None
      with Some Cons.prems show ?thesis by auto
    next
      case pct: (Some pct)
      show ?thesis
      proof (cases "f_le (Fin 0) pct")
        case True
        with Some pct Cons show ?thesis by simp
      next
        case False
        let ?st1 = "send (GetKlines (listing_params a)) st"
        show ?thesis
        proof (cases "py_float L (lastPrice t)")
          case None
          with Some pct False Cons.prems show ?thesis by (auto simp: Let_def send_frame)
        next
          case lp: (Some lp)
          show ?thesis
          proof (cases "py_float L (quoteVolume t)")
            case None
            with Some pct False lp Cons.prems show ?thesis by (auto simp: Let_def send_frame)
          next
            case qv: (Some qv)
            with Some pct False lp Cons.prems
            have "filter_loop L net tm syms
                    (rows @ [\<lparr>row_symbol = a, pct_24h = pct, last_price = lp,
                              volume_usdt = qv, listed_date = listing_date L net a\<rparr>]) ?st1 = (res, st')"
              by (simp add: Let_def)
            from Cons.IH[OF this] show ?thesis by (simp add: send_frame)
          qed
        qed
      qed
    qed
  qed
qed

lemma fetch_exchange_symbols_frame:
  "fetch_exchange_symbols net now st = (res, st') \<Longrightarrow>
     candle_cache st' = candle_cache st \<and> filtered_df st' = filtered_df st"
  by (auto simp: fetch_exchange_symbols_def fetch_exchange_symbols_body_def send_def
      split: option.splits if_splits sum.splits prod.splits)

lemma fetch_all_tickers_24h_frame:
  "fetch_all_tickers_24h net now st = (res, st') \<Longrightarrow>
     candle_cache st' = candle_cache st \<and> filtered_df st' = filtered_df st"
  by (auto simp: fetch_all_tickers_24h_def fetch_all_tickers_24h_body_def send_def
      split: option.splits if_splits sum.splits prod.splits)

lemma load_symbols_frame:
  "load_symbols net now refresh st = (res, st') \<Longrightarrow>
     candle_cache st' = candle_cache st \<and> filtered_df st' = filtered_df st"
  by (auto simp: load_symbols_def split: option.splits if_splits sum.splits prod.splits
      dest: fetch_exchange_symbols_frame)

lemma reload_frame:
  "reload L net now refresh max_symbols st = (res, st') \<Longrightarrow> candle_cache st' = candle_cache st"
  by (auto simp: reload_def Let_def split: prod.splits sum.splits
      dest!: load_symbols_frame fetch_all_tickers_24h_frame filter_loop_frame)

lemma reload_error_frame:
  "reload L net now refresh max_symbols st = (Some e, st') \<Longrightarrow> filtered_df st' = filtered_df st"
  by (auto simp: reload_def Let_def split: prod.splits sum.splits
      dest!: load_symbols_frame fetch_all_tickers_24h_frame filter_loop_frame)

subsection \<open>A refresh cycle that completes\<close>

lemma reload_success:
  assumes "reload L net now refresh max_symbols st = (None, st')"
  shows "\<exists>cache st1 tickers st2 rows st3 df.
           load_symbols net now refresh st = (Inr cache, st1) \<and>
           fetch_all_tickers_24h net now st1 = (Inr tickers, st2) \<and>
           filter_loop L net (tick_map tickers) (map symbol (take max_symbols cache)) [] st2 = (Inr rows, st3) \<and>
           rows \<noteq> [] \<and> sort_values L rows = Inr df \<and> st' = st3\<lparr>filtered_df := Some df\<rparr>"
  using assms
  by (auto simp: reload_def Let_def sort_values_def split: prod.splits sum.splits if_splits)

lemma reload_completes:
  assumes "load_symbols net now refresh st = (Inr cache, st1)"
    and "fetch_all_tickers_24h net now st1 = (Inr tickers, st2)"
    and "filter_loop L net (tick_map tickers) (map symbol (take max_symbols cache)) [] st2 = (Inr rows, st3)"
    and "rows \<noteq> []"
  shows "\<exists>df. sort_values L rows = Inr df \<and>
           reload L net now refresh max_symbols st = (None, st3\<lparr>filtered_df := Some df\<rparr>)"
proof -
  from sort_values_nonempty[OF assms(4)] obtain df where "sort_values L rows = Inr df" by blast
  with assms(1-3) show ?thesis by (simp add: reload_def Let_def)
qed

lemma reload_table:
  assumes "reload L net now refresh max_symbols st = (None, st')"
  shows "\<exists>cache st1 tickers st2 df.
           load_symbols net now refresh st = (Inr cache, st1) \<and>
           fetch_all_tickers_24h net now st1 = (Inr tickers, st2) \<and>
           filtered_df st' = Some df \<and>
           mset df = mset (List.map_filter (row_of L net (tick_map tickers))
                             (map symbol (take max_symbols cache))) \<and>
           map row_symbol (List.map_filter (row_of L net (tick_map tickers))
                             (map symbol (take max_symbols cache))) =
             filter (survives L (tick_map tickers)) (map symbol (take max_symbols cache)) \<and>
           (\<forall>s \<in> set (map symbol (take max_symbols cache)).
               survives L (tick_map tickers) s \<longrightarrow> row_of L net (tick_map tickers) s \<noteq> None)"
proof -
  from reload_success[OF assms] obtain cache st1 tickers st2 rows st3 df where
    a: "load_symbols net now refresh st = (Inr cache, st1)"
    and b: "fetch_all_tickers_24h net now st1 = (Inr tickers, st2)"
    and c: "filter_loop L net (tick_map tickers) (map symbol (take max_symbols cache)) [] st2 = (Inr rows, st3)"
    and s: "sort_values L rows = Inr df"
    and d: "st' = st3\<lparr>filtered_df := Some df\<rparr>"
    by blast
  from filter_loop_rows[OF c]
  have rows: "rows = List.map_filter (row_of L net (tick_map tickers)) (map symbol (take max_symbols cache))"
    by simp
  have q: "\<forall>s \<in> set (map symbol (take max_symbols cache)).
             survives L (tick_map tickers) s \<longrightarrow> row_of L net (tick_map tickers) s \<noteq> None"
    using filter_loop_survivors[OF c] by blast
  from filter_loop_symbols[OF c] rows
  have sy: "map row_symbol (List.map_filter (row_of L net (tick_map tickers))
                             (map symbol (take max_symbols cache))) =
             filter (survives L (tick_map tickers)) (map symbol (take max_symbols cache))"
    by simp
  from mset_sort_values[OF s] rows
  have m: "mset df = mset (List.map_filter (row_of L net (tick_map tickers))
                             (map symbol (take max_symbols cache)))" by simp
  from d have f: "filtered_df st' = Some df" by simp
  from a b f m sy q show ?thesis by blast
qed

text \<open>
  What the filter gives: no stored row has a percent change for which \<^verbatim>\<open>pct >= 0\<close>
  holds, so a stored row whose percent change is a number has it below zero.
\<close>

lemma not_ge_zero_lt: "\<not> f_le (Fin 0) p \<Longrightarrow> p \<noteq> NaN \<Longrightarrow> f_lt p (Fin 0)"
  by (cases p) (auto simp: f_lt_def)

lemma stored_rows_pass_guard:
  assumes "reload L net now refresh max_symbols st = (None, st')"
  shows "\<exists>df. filtered_df st' = Some df \<and>
           (\<forall>r \<in> set df. \<not> f_le (Fin 0) (pct_24h r)) \<and>
           (\<forall>r \<in> set df. pct_24h r \<noteq> NaN \<longrightarrow> f_lt (pct_24h r) (Fin 0))"
proof -
  from reload_table[OF assms] obtain cache st1 tickers st2 df where
    "load_symbols net now refresh st = (Inr cache, st1)"
    and "fetch_all_tickers_24h net now st1 = (Inr tickers, st2)"
    and df: "filtered_df st' = Some df"
    and m: "mset df = mset (List.map_filter (row_of L net (tick_map tickers))
                             (map symbol (take max_symbols cache)))"
    by blast
  from m have "set df = set (List.map_filter (row_of L net (tick_map tickers))
                             (map symbol (take max_symbols cache)))"
    by (metis set_mset_mset)
  then have "\<forall>r \<in> set df. \<not> f_le (Fin 0) (pct_24h r)"
    by (auto simp: List.map_filter_def dest: row_of_Some)
  with df show ?thesis by (auto intro: not_ge_zero_lt)
qed

subsection \<open>The concrete session\<close>

lemmas demo_defs =
  reload_def load_symbols_def fetch_exchange_symbols_def fetch_exchange_symbols_body_def
  fetch_all_tickers_24h_def fetch_all_tickers_24h_body_def get_json_def raise_for_status_def
  cache_fresh_def send_def initial_state_def demo_net_def demo_symbols_def demo_tickers_def
  demo_lib_def demo_float_def demo_dmy_def demo_klines_def demo_kline_def perp_def tick_def
  is_perpetual_usdt_def tick_map_def listing_date_def listing_params_def sort_values_def
  before_def f_lt_def is_nan_def demo_state_def demo_perps_def row_AAA_def row_CCC_def
  row_BBB_def Let_def

lemma demo_reload: "reload demo_lib demo_net 1000 True 4 initial_state = (None, demo_state)"
  by (simp add: demo_defs)

lemma demo_load:
  "load_symbols demo_net 1000 True initial_state =
     (Inr demo_perps,
      initial_state\<lparr>symbols_cache := Some demo_perps, exchange_memo := Some (1000, demo_perps),
                    requests := [GetExchangeInfo]\<rparr>)"
  by (simp add: demo_defs)

lemma demo_tickers_fetch:
  "fetch_all_tickers_24h demo_net 1000
     (initial_state\<lparr>symbols_cache := Some demo_perps, exchange_memo := Some (1000, demo_perps),
                    requests := [GetExchangeInfo]\<rparr>) =
     (Inr demo_tickers,
      initial_state\<lparr>symbols_cache := Some demo_perps, exchange_memo := Some (1000, demo_perps),
                    tickers_memo := Some (1000, demo_tickers),
                    requests := [GetExchangeInfo, GetTicker24h]\<rparr>)"
  by (simp add: fetch_all_tickers_24h_def fetch_all_tickers_24h_body_def
      get_json_def raise_for_status_def demo_net_def initial_state_def send_def)

lemma demo_well_formed: "\<forall>t \<in> set demo_tickers. well_formed demo_lib t"
  by (simp add: demo_tickers_def tick_def well_formed_def demo_lib_def demo_float_def)

lemma demo_survives:
  "survives demo_lib (tick_map demo_tickers) ''AAA''"
  "survives demo_lib (tick_map demo_tickers) ''CCC''"
  "\<not> survives demo_lib (tick_map demo_tickers) ''BBB''"
  by (simp_all add: survives_def tick_map_def demo_tickers_def tick_def demo_lib_def demo_float_def)

lemma demo_reload_two:
  "reload demo_lib demo_net 1000 True 2 initial_state =
     (None, demo_state\<lparr>filtered_df := Some [row_CCC],
                       requests := [GetExchangeInfo, GetTicker24h, GetKlines (listing_params ''CCC'')]\<rparr>)"
  by (simp add: demo_defs)

lemma nan_reload:
  "reload demo_lib nan_net 1000 True 4 initial_state =
     (None,
      \<lparr>symbols_cache = Some demo_perps, candle_cache = Map.empty,
       filtered_df = Some [row_AAA, row_CCC, row_BBB],
       exchange_memo = Some (1000, demo_perps), tickers_memo = Some (1000, nan_tickers),
       requests = [GetExchangeInfo, GetTicker24h, GetKlines (listing_params ''CCC''),
                   GetKlines (listing_params ''BBB''), GetKlines (listing_params ''AAA'')]\<rparr>)"
  by (simp add: demo_defs nan_net_def nan_tickers_def)

subsection \<open>The filter and the sort\<close>

text \<open>
  C1. The ticker snapshot gives \<^verbatim>\<open>"nan"\<close> as the percent change of BBB. \<^verbatim>\<open>float\<close> reads
  it as not-a-number, for which \<^verbatim>\<open>pct >= 0\<close> is false, so the loop keeps BBB: the
  cycle completes and the table it stores has the row of BBB, whose percent change
  is not below zero.
\<close>

theorem nan_row_stored:
  "py_float demo_lib (priceChangePercent (tick ''BBB'' ''nan'')) = Some NaN \<and>
   \<not> f_le (Fin 0) NaN \<and>
   reload demo_lib nan_net 1000 True 4 initial_state =
     (None,
      \<lparr>symbols_cache = Some demo_perps, candle_cache = Map.empty,
       filtered_df = Some [row_AAA, row_CCC, row_BBB],
       exchange_memo = Some (1000, demo_perps), tickers_memo = Some (1000, nan_tickers),
       requests = [GetExchangeInfo, GetTicker24h, GetKlines (listing_params ''CCC''),
                   GetKlines (listing_params ''BBB''), GetKlines (listing_params ''AAA'')]\<rparr>) \<and>
   row_symbol row_BBB = ''BBB'' \<and> pct_24h row_BBB = NaN \<and>
   \<not> f_lt (pct_24h row_BBB) (Fin 0)"
  using nan_reload
  by (simp add: demo_lib_def demo_float_def tick_def row_BBB_def f_lt_def)

text \<open>
  C2. In the same cycle the loop appends the rows of CCC, BBB and AAA in this order;
  the sort puts AAA (-5.0) before CCC (-1.0) and the not-a-number row of BBB last.
  The second and the third row of the stored table are CCC and BBB, and
  \<^verbatim>\<open>-1.0 <= nan\<close> is false.
\<close>

theorem nan_row_breaks_order:
  "filtered_df (snd (reload demo_lib nan_net 1000 True 4 initial_state)) =
     Some [row_AAA, row_CCC, row_BBB] \<and>
   f_le (pct_24h ([row_AAA, row_CCC, row_BBB] ! 0)) (pct_24h ([row_AAA, row_CCC, row_BBB] ! 1)) \<and>
   \<not> f_le (pct_24h ([row_AAA, row_CCC, row_BBB] ! 1)) (pct_24h ([row_AAA, row_CCC, row_BBB] ! 2))"
  using nan_reload
  by (simp add: row_AAA_def row_CCC_def row_BBB_def)

subsection \<open>The candidates\<close>

text \<open>
  C3. A refresh cycle with the input \<open>max_symbols\<close> works on the first \<open>max_symbols\<close>
  entries of the metadata list, in the order of the list. When the tickers are well
  formed and one of these candidates survives the ticker join and the filter, the
  cycle completes, and its table has at most \<open>max_symbols\<close> rows, whose symbols are
  exactly the surviving candidates: nothing beyond the prefix is considered and
  nothing of the prefix is left out. Any cycle that completes has such a table.
\<close>

theorem count_bound:
  "(load_symbols net now refresh st = (Inr cache, st1) \<and>
    fetch_all_tickers_24h net now st1 = (Inr tickers, st2) \<and>
    (\<forall>t \<in> set tickers. well_formed L t) \<and>
    (\<exists>s \<in> set (map symbol (take max_symbols cache)). survives L (tick_map tickers) s) \<longrightarrow>
      (\<exists>st' df. reload L net now refresh max_symbols st = (None, st') \<and>
         filtered_df st' = Some df \<and> length df \<le> max_symbols \<and>
         mset (map row_symbol df) =
           mset (filter (survives L (tick_map tickers)) (map symbol (take max_symbols cache))))) \<and>
   (reload L net now refresh max_symbols st = (None, st'') \<longrightarrow>
      (\<exists>cache st1 tickers st2 df.
         load_symbols net now refresh st = (Inr cache, st1) \<and>
         fetch_all_tickers_24h net now st1 = (Inr tickers, st2) \<and>
         filtered_df st'' = Some df \<and> length df \<le> max_symbols \<and>
         mset (map row_symbol df) =
           mset (filter (survives L (tick_map tickers)) (map symbol (take max_symbols cache)))))"
proof (intro conjI impI)
  assume fin: "reload L net now refresh max_symbols st = (None, st'')"
  from reload_table[OF fin] obtain cache st1 tickers st2 df where
    a: "load_symbols net now refresh st = (Inr cache, st1)"
    and b: "fetch_all_tickers_24h net now st1 = (Inr tickers, st2)"
    and f: "filtered_df st'' = Some df"
    and m: "mset df = mset (List.map_filter (row_of L net (tick_map tickers))
                             (map symbol (take max_symbols cache)))"
    and sy: "map row_symbol (List.map_filter (row_of L net (tick_map tickers))
                             (map symbol (take max_symbols cache))) =
             filter (survives L (tick_map tickers)) (map symbol (take max_symbols cache))"
    by blast
  let ?syms = "map symbol (take max_symbols cache)"
  let ?rows = "List.map_filter (row_of L net (tick_map tickers)) ?syms"
  from m have "mset (map row_symbol df) = mset (map row_symbol ?rows)" by (metis mset_map)
  with sy have ms: "mset (map row_symbol df) = mset (filter (survives L (tick_map tickers)) ?syms)"
    by simp
  from m have "length df = length ?rows" by (metis size_mset)
  also have "\<dots> = length (map row_symbol ?rows)" by simp
  also have "\<dots> \<le> length ?syms" unfolding sy by (rule length_filter_le)
  also have "\<dots> \<le> max_symbols" by simp
  finally have len: "length df \<le> max_symbols" .
  from a b f len ms
  show "\<exists>cache st1 tickers st2 df.
         load_symbols net now refresh st = (Inr cache, st1) \<and>
         fetch_all_tickers_24h net now st1 = (Inr tickers, st2) \<and>
         filtered_df st'' = Some df \<and> length df \<le> max_symbols \<and>
         mset (map row_symbol df) =
           mset (filter (survives L (tick_map tickers)) (map symbol (take max_symbols cache)))"
    by blast
next
  assume h: "load_symbols net now refresh st = (Inr cache, st1) \<and>
    fetch_all_tickers_24h net now st1 = (Inr tickers, st2) \<and>
    (\<forall>t \<in> set tickers. well_formed L t) \<and>
    (\<exists>s \<in> set (map symbol (take max_symbols cache)). survives L (tick_map tickers) s)"
  let ?tm = "tick_map tickers" and ?syms = "map symbol (take max_symbols cache)"
  from h have a: "load_symbols net now refresh st = (Inr cache, st1)"
    and b: "fetch_all_tickers_24h net now st1 = (Inr tickers, st2)"
    and wf: "\<forall>t \<in> set tickers. well_formed L t"
    and some: "\<exists>s \<in> set ?syms. survives L ?tm s" by simp_all
  have wf': "\<And>s t. ?tm s = Some t \<Longrightarrow> well_formed L t"
    using wf tick_map_member by blast
  have "\<exists>rows st3. filter_loop L net ?tm ?syms [] st2 = (Inr rows, st3)"
    by (rule filter_loop_completes) (rule wf')
  then obtain rows st3 where c: "filter_loop L net ?tm ?syms [] st2 = (Inr rows, st3)" by blast
  from filter_loop_symbols[OF c] have sy: "map row_symbol rows = filter (survives L ?tm) ?syms" .
  from some have "filter (survives L ?tm) ?syms \<noteq> []" by (auto simp: filter_empty_conv)
  with sy have ne: "rows \<noteq> []" by auto
  from reload_completes[OF a b c ne] obtain df where
    s: "sort_values L rows = Inr df"
    and r: "reload L net now refresh max_symbols st = (None, st3\<lparr>filtered_df := Some df\<rparr>)"
    by blast
  from mset_sort_values[OF s] have "mset (map row_symbol df) = mset (map row_symbol rows)"
    by (metis mset_map)
  with sy have ms: "mset (map row_symbol df) = mset (filter (survives L ?tm) ?syms)" by simp
  from length_sort_values[OF s] have "length df = length (map row_symbol rows)" by simp
  also have "\<dots> \<le> length ?syms" unfolding sy by (rule length_filter_le)
  also have "\<dots> \<le> max_symbols" by simp
  finally have len: "length df \<le> max_symbols" .
  from r len ms
  show "\<exists>st' df. reload L net now refresh max_symbols st = (None, st') \<and>
         filtered_df st' = Some df \<and> length df \<le> max_symbols \<and>
         mset (map row_symbol df) = mset (filter (survives L ?tm) ?syms)"
    by (intro exI[of _ "st3\<lparr>filtered_df := Some df\<rparr>"] exI[of _ df]) simp
qed

text \<open>
  With \<open>max_symbols = 2\<close> on the four entries CCC, BBB, AAA, DDD the candidates are
  CCC and BBB: AAA, which would survive, is beyond the prefix and not in the table.
\<close>

theorem count_bound_witness:
  "length demo_perps = 4 \<and> map symbol (take 2 demo_perps) = [''CCC'', ''BBB''] \<and>
   survives demo_lib (tick_map demo_tickers) ''AAA'' \<and>
   reload demo_lib demo_net 1000 True 2 initial_state =
     (None, demo_state\<lparr>filtered_df := Some [row_CCC],
                       requests := [GetExchangeInfo, GetTicker24h, GetKlines (listing_params ''CCC'')]\<rparr>) \<and>
   length [row_CCC] \<le> 2 \<and> map row_symbol [row_CCC] = [''CCC'']"
proof -
  have cand: "map symbol (take 2 demo_perps) = [''CCC'', ''BBB'']"
    by (simp add: demo_perps_def perp_def)
  then have some: "\<exists>s \<in> set (map symbol (take 2 demo_perps)). survives demo_lib (tick_map demo_tickers) s"
    using demo_survives(2) by simp
  from count_bound[of demo_net 1000 True initial_state demo_perps _ demo_tickers _ demo_lib 2]
    demo_load demo_tickers_fetch demo_well_formed some demo_reload_two
  have "length [row_CCC] \<le> 2" by simp
  with cand demo_survives(1) demo_reload_two show ?thesis
    by (simp add: demo_perps_def row_CCC_def)
qed

subsection \<open>The candle cache\<close>

lemma get_klines_cached_hit:
  "candle_cache st (cache_key symb interval) = Some df \<Longrightarrow>
     get_klines_cached L net symb interval limit st = (Inr df, st)"
  by (simp add: get_klines_cached_def)

lemma get_klines_cached_stores:
  "get_klines_cached L net symb interval limit st = (Inr df, st') \<Longrightarrow>
     candle_cache st' (cache_key symb interval) = Some df"
  by (auto simp: get_klines_cached_def Let_def send_def split: option.splits sum.splits)

lemma get_klines_cached_keeps:
  "candle_cache st k = Some df \<Longrightarrow>
     candle_cache (snd (get_klines_cached L net symb interval limit st)) k = Some df"
  by (auto simp: get_klines_cached_def Let_def send_def split: option.splits sum.splits)

lemma run_script_frame:
  "candle_cache (snd (run_script L net now refresh auto_refresh max_symbols st)) = candle_cache st"
  using reload_frame[of L net now refresh max_symbols st]
  by (cases "reload L net now refresh max_symbols st") (simp add: run_script_def)

lemma do_action_keeps:
  "candle_cache st k = Some df \<Longrightarrow> candle_cache (do_action L a st) k = Some df"
  by (cases a) (simp_all add: run_script_frame get_klines_cached_keeps)

lemma session_keeps:
  "candle_cache st k = Some df \<Longrightarrow> candle_cache (session L acts st) k = Some df"
  by (induction acts arbitrary: st) (simp_all add: do_action_keeps)

lemma demo_chart:
  "get_klines_cached demo_lib demo_net symb interval limit initial_state =
     (Inr demo_frame, charted symb interval limit)"
  by (simp add: get_klines_cached_def initial_state_def Let_def send_def get_json_def
      raise_for_status_def demo_net_def demo_klines_def demo_kline_def build_frame_def
      demo_lib_def demo_datetime_def demo_numeric_def demo_float_def demo_frame_def
      charted_def chart_params_def)

text \<open>
  C4. After a call of the candle fetcher for a symbol and an interval has returned a
  series, every later call in the session for the same symbol and interval returns
  that series, whatever its limit and whatever the network would answer, and leaves
  the state, the request log included, as it is: no request is sent. The key is made
  of the symbol and the interval only; the fetcher has no start-time argument.
\<close>

theorem cache_idempotence:
  assumes "get_klines_cached L net1 symb interval limit1 st0 = (Inr df, st1)"
  shows "get_klines_cached L net2 symb interval limit2 (session L acts st1) =
           (Inr df, session L acts st1)"
proof -
  from assms have "candle_cache st1 (cache_key symb interval) = Some df"
    by (rule get_klines_cached_stores)
  then have "candle_cache (session L acts st1) (cache_key symb interval) = Some df"
    by (rule session_keeps)
  then show ?thesis by (rule get_klines_cached_hit)
qed

theorem cache_idempotence_witness:
  "get_klines_cached demo_lib demo_net ''XYZ'' ''1h'' 500 initial_state =
     (Inr demo_frame, charted ''XYZ'' ''1h'' 500) \<and>
   get_klines_cached demo_lib down_net ''XYZ'' ''1h'' 10
       (session demo_lib [Chart demo_net ''XYZ'' ''4h'' 500, Script down_net 1000 True False 4]
          (charted ''XYZ'' ''1h'' 500)) =
     (Inr demo_frame,
      session demo_lib [Chart demo_net ''XYZ'' ''4h'' 500, Script down_net 1000 True False 4]
          (charted ''XYZ'' ''1h'' 500)) \<and>
   length (c_open demo_frame) = 2"
  using cache_idempotence[OF demo_chart[of "''XYZ''" "''1h''" 500],
      where ?net2.0 = down_net and ?limit2.0 = 10
        and acts = "[Chart demo_net ''XYZ'' ''4h'' 500, Script down_net 1000 True False 4]"]
    demo_chart[of "''XYZ''" "''1h''" 500]
  by (simp add: demo_frame_def)

subsection \<open>The key of the candle cache\<close>

lemma first_separator:
  "x \<notin> set xs \<Longrightarrow> x \<notin> set xs' \<Longrightarrow> xs @ x # ys = xs' @ x # ys' \<Longrightarrow> xs = xs' \<and> ys = ys'"
proof (induction xs arbitrary: xs')
  case Nil
  then show ?case by (cases xs') auto
next
  case (Cons a xs)
  then show ?case by (cases xs') auto
qed

lemma cache_key_eq:
  assumes "CHR ''_'' \<notin> set i1" and "CHR ''_'' \<notin> set i2"
    and "cache_key s1 i1 = cache_key s2 i2"
  shows "s1 = s2 \<and> i1 = i2"
proof -
  from assms(3) have "rev (s1 @ CHR ''_'' # i1) = rev (s2 @ CHR ''_'' # i2)"
    by (simp add: cache_key_def)
  then have eq: "rev i1 @ CHR ''_'' # rev s1 = rev i2 @ CHR ''_'' # rev s2" by simp
  have n1: "CHR ''_'' \<notin> set (rev i1)" and n2: "CHR ''_'' \<notin> set (rev i2)"
    using assms(1,2) by simp_all
  from first_separator[OF n1 n2 eq]
  have "rev i1 = rev i2 \<and> rev s1 = rev s2" .
  then show ?thesis by simp
qed

lemma wire_interval_plain: "i \<in> set wire_intervals \<Longrightarrow> CHR ''_'' \<notin> set i"
  by (auto simp: wire_intervals_def INTERVAL_MAP_def)

lemma wire_key_eq:
  "i1 \<in> set wire_intervals \<Longrightarrow> i2 \<in> set wire_intervals \<Longrightarrow>
     cache_key s1 i1 = cache_key s2 i2 \<Longrightarrow> s1 = s2 \<and> i1 = i2"
  by (rule cache_key_eq) (auto dest: wire_interval_plain)

text \<open>
  Where a cached series comes from. If every series in the cache, under the key of a
  symbol and a wire interval, was built from the answer to a chart call for that
  symbol and interval, the same holds after one more action of the script.
\<close>

lemma do_action_provenance:
  assumes inv: "\<And>s i df. i \<in> set wire_intervals \<Longrightarrow> candle_cache st (cache_key s i) = Some df \<Longrightarrow>
            \<exists>net l arr. Chart net s i l \<in> seen \<and>
              get_json (klines net (chart_params s i l)) = Inr arr \<and> build_frame L arr = Inr df"
    and ok: "chart_of_script a"
    and i: "i \<in> set wire_intervals"
    and hit: "candle_cache (do_action L a st) (cache_key s i) = Some df"
  shows "\<exists>net l arr. Chart net s i l \<in> insert a seen \<and>
           get_json (klines net (chart_params s i l)) = Inr arr \<and> build_frame L arr = Inr df"
proof (cases a)
  case (Script net now refresh auto_refresh max_symbols)
  with hit have "candle_cache st (cache_key s i) = Some df" by (simp add: run_script_frame)
  from inv[OF i this] show ?thesis by blast
next
  case (Chart net' s' i' l')
  with ok have i': "i' \<in> set wire_intervals" by simp
  show ?thesis
  proof (cases "candle_cache st (cache_key s i) = Some df")
    case True
    from inv[OF i True] show ?thesis by blast
  next
    case False
    from hit Chart have h: "candle_cache (snd (get_klines_cached L net' s' i' l' st)) (cache_key s i) = Some df"
      by simp
    with False obtain arr where miss: "candle_cache st (cache_key s' i') = None"
      and arr: "get_json (klines net' (chart_params s' i' l')) = Inr arr"
      and df: "build_frame L arr = Inr df"
      and key: "cache_key s i = cache_key s' i'"
      by (auto simp: get_klines_cached_def Let_def send_def
          split: option.splits sum.splits if_splits)
    from wire_key_eq[OF i i' key] have "s = s'" "i = i'" by simp_all
    with arr df Chart show ?thesis by blast
  qed
qed

lemma session_provenance:
  assumes "\<And>s i df. i \<in> set wire_intervals \<Longrightarrow> candle_cache st (cache_key s i) = Some df \<Longrightarrow>
            \<exists>net l arr. Chart net s i l \<in> seen \<and>
              get_json (klines net (chart_params s i l)) = Inr arr \<and> build_frame L arr = Inr df"
    and "list_all chart_of_script acts"
    and "i \<in> set wire_intervals"
    and "candle_cache (session L acts st) (cache_key s i) = Some df"
  shows "\<exists>net l arr. Chart net s i l \<in> seen \<union> set acts \<and>
           get_json (klines net (chart_params s i l)) = Inr arr \<and> build_frame L arr = Inr df"
  using assms
proof (induction acts arbitrary: st seen)
  case Nil
  then show ?case by simp
next
  case (Cons a acts)
  from Cons.prems(2) have ok: "chart_of_script a" and oks: "list_all chart_of_script acts"
    by simp_all
  have step: "\<exists>net l arr. Chart net s' i' l \<in> insert a seen \<and>
           get_json (klines net (chart_params s' i' l)) = Inr arr \<and> build_frame L arr = Inr df'"
    if "i' \<in> set wire_intervals" "candle_cache (do_action L a st) (cache_key s' i') = Some df'"
    for s' i' df'
    using Cons.prems(1) ok that by (rule do_action_provenance)
  from Cons.prems(4) have "candle_cache (session L acts (do_action L a st)) (cache_key s i) = Some df"
    by simp
  from Cons.IH[of "do_action L a st" "insert a seen", OF step oks Cons.prems(3) this]
  show ?case by auto
qed

text \<open>
  C10. Two distinct pairs of a symbol and a wire interval of \<open>INTERVAL_MAP\<close>, the only
  intervals the script passes to the candle fetcher, have distinct cache keys. So in
  a session of the script the fetcher never serves a pair the series cached for
  another: the series it returns for a symbol and an interval was built from the
  answer of the exchange to a request for this symbol and this interval, made by
  the call itself or by an earlier call for the same pair.
\<close>

theorem cache_key_injective:
  "(i1 \<in> set wire_intervals \<and> i2 \<in> set wire_intervals \<and> (s1, i1) \<noteq> (s2, i2) \<longrightarrow>
      cache_key s1 i1 \<noteq> cache_key s2 i2) \<and>
   (list_all chart_of_script acts \<and> interval \<in> set wire_intervals \<and>
    get_klines_cached L net2 symb interval limit2 (session L acts initial_state) = (Inr df, st') \<longrightarrow>
      (\<exists>net limit arr.
         (Chart net symb interval limit \<in> set acts \<or> (net, limit) = (net2, limit2)) \<and>
         get_json (klines net (chart_params symb interval limit)) = Inr arr \<and>
         build_frame L arr = Inr df))"
proof (intro conjI impI)
  assume "i1 \<in> set wire_intervals \<and> i2 \<in> set wire_intervals \<and> (s1, i1) \<noteq> (s2, i2)"
  then show "cache_key s1 i1 \<noteq> cache_key s2 i2"
    using wire_key_eq[of i1 i2 s1 s2] by auto
next
  assume h: "list_all chart_of_script acts \<and> interval \<in> set wire_intervals \<and>
    get_klines_cached L net2 symb interval limit2 (session L acts initial_state) = (Inr df, st')"
  let ?st = "session L acts initial_state"
  from h have oks: "list_all chart_of_script acts" and i: "interval \<in> set wire_intervals"
    and call: "get_klines_cached L net2 symb interval limit2 ?st = (Inr df, st')" by simp_all
  show "\<exists>net limit arr.
         (Chart net symb interval limit \<in> set acts \<or> (net, limit) = (net2, limit2)) \<and>
         get_json (klines net (chart_params symb interval limit)) = Inr arr \<and>
         build_frame L arr = Inr df"
  proof (cases "candle_cache ?st (cache_key symb interval)")
    case None
    with call obtain arr where "get_json (klines net2 (chart_params symb interval limit2)) = Inr arr"
      and "build_frame L arr = Inr df"
      by (auto simp: get_klines_cached_def Let_def split: sum.splits)
    then show ?thesis by blast
  next
    case (Some df0)
    with call have "df0 = df" by (simp add: get_klines_cached_def)
    with Some have c: "candle_cache ?st (cache_key symb interval) = Some df" by simp
    have start: "\<exists>net l arr. Chart net s i l \<in> {} \<and>
              get_json (klines net (chart_params s i l)) = Inr arr \<and> build_frame L arr = Inr d"
      if "i \<in> set wire_intervals" "candle_cache initial_state (cache_key s i) = Some d" for s i d
      using that by (simp add: initial_state_def)
    from session_provenance[of initial_state "{}" L acts interval symb df, OF start oks i c]
    show ?thesis by auto
  qed
qed

theorem cache_key_injective_witness:
  "''1h'' \<in> set wire_intervals \<and> ''4h'' \<in> set wire_intervals \<and>
   cache_key ''BTCUSDT'' ''1h'' \<noteq> cache_key ''BTCUSDT'' ''4h'' \<and>
   cache_key ''BTCUSDT'' ''1h'' \<noteq> cache_key ''ETHUSDT'' ''1h'' \<and>
   get_klines_cached demo_lib down_net ''ETHUSDT'' ''1h'' 500
       (session demo_lib [Chart demo_net ''BTCUSDT'' ''1h'' 500] initial_state) =
     (Inl RequestException,
      send (GetKlines (chart_params ''ETHUSDT'' ''1h'' 500)) (charted ''BTCUSDT'' ''1h'' 500)) \<and>
   get_klines_cached demo_lib down_net ''BTCUSDT'' ''1h'' 10
       (session demo_lib [Chart demo_net ''BTCUSDT'' ''1h'' 500] initial_state) =
     (Inr demo_frame, charted ''BTCUSDT'' ''1h'' 500)"
proof -
  have w: "''1h'' \<in> set wire_intervals" "''4h'' \<in> set wire_intervals"
    by (simp_all add: wire_intervals_def INTERVAL_MAP_def)
  have s: "session demo_lib [Chart demo_net ''BTCUSDT'' ''1h'' 500] initial_state =
      charted ''BTCUSDT'' ''1h'' 500"
    by (simp add: demo_chart)
  have k1: "cache_key ''BTCUSDT'' ''1h'' \<noteq> cache_key ''BTCUSDT'' ''4h''"
    using cache_key_injective[of "''1h''" "''4h''" "''BTCUSDT''" "''BTCUSDT''"] w by simp
  have k2: "cache_key ''BTCUSDT'' ''1h'' \<noteq> cache_key ''ETHUSDT'' ''1h''"
    using cache_key_injective[of "''1h''" "''1h''" "''BTCUSDT''" "''ETHUSDT''"] w by simp
  have miss: "get_klines_cached demo_lib down_net ''ETHUSDT'' ''1h'' 500 (charted ''BTCUSDT'' ''1h'' 500) =
     (Inl RequestException,
      send (GetKlines (chart_params ''ETHUSDT'' ''1h'' 500)) (charted ''BTCUSDT'' ''1h'' 500))"
    using k2 by (simp add: get_klines_cached_def charted_def initial_state_def Let_def
        get_json_def down_net_def)
  have hit: "get_klines_cached demo_lib down_net ''BTCUSDT'' ''1h'' 10 (charted ''BTCUSDT'' ''1h'' 500) =
     (Inr demo_frame, charted ''BTCUSDT'' ''1h'' 500)"
    by (simp add: get_klines_cached_def charted_def initial_state_def)
  have ok: "list_all chart_of_script [Chart demo_net ''BTCUSDT'' ''1h'' 500]"
    using w by simp
  from cache_key_injective[where acts = "[Chart demo_net ''BTCUSDT'' ''1h'' 500]"
      and interval = "''1h''" and L = demo_lib and ?net2.0 = down_net and symb = "''BTCUSDT''"
      and ?limit2.0 = 10 and df = demo_frame and st' = "charted ''BTCUSDT'' ''1h'' 500",
      THEN conjunct2] ok w hit s
  have "\<exists>net limit arr.
      (Chart net ''BTCUSDT'' ''1h'' limit \<in> set [Chart demo_net ''BTCUSDT'' ''1h'' 500] \<or>
       (net, limit) = (down_net, 10)) \<and>
      get_json (klines net (chart_params ''BTCUSDT'' ''1h'' limit)) = Inr arr \<and>
      build_frame demo_lib arr = Inr demo_frame"
    by simp
  with w k1 k2 miss hit s show ?thesis by simp
qed

subsection \<open>The empty table\<close>

lemma flat_loop:
  "filter_loop demo_lib flat_net (tick_map [tick ''BBB'' ''2.0''])
     (map symbol (take 4 demo_perps)) [] st = (Inr [], st)"
  by (simp add: tick_map_def tick_def demo_perps_def perp_def demo_lib_def demo_float_def)

lemma flat_load:
  "load_symbols flat_net 1000 True initial_state =
     (Inr demo_perps,
      initial_state\<lparr>symbols_cache := Some demo_perps, exchange_memo := Some (1000, demo_perps),
                    requests := [GetExchangeInfo]\<rparr>)"
  by (simp add: load_symbols_def fetch_exchange_symbols_def fetch_exchange_symbols_body_def
      get_json_def raise_for_status_def flat_net_def initial_state_def send_def demo_symbols_def
      demo_perps_def perp_def is_perpetual_usdt_def)

lemma flat_tickers:
  "fetch_all_tickers_24h flat_net 1000
     (initial_state\<lparr>symbols_cache := Some demo_perps, exchange_memo := Some (1000, demo_perps),
                    requests := [GetExchangeInfo]\<rparr>) =
     (Inr [tick ''BBB'' ''2.0''],
      initial_state\<lparr>symbols_cache := Some demo_perps, exchange_memo := Some (1000, demo_perps),
                    tickers_memo := Some (1000, [tick ''BBB'' ''2.0'']),
                    requests := [GetExchangeInfo, GetTicker24h]\<rparr>)"
  by (simp add: fetch_all_tickers_24h_def fetch_all_tickers_24h_body_def
      get_json_def raise_for_status_def flat_net_def initial_state_def send_def)

text \<open>
  C9. When the loop of a refresh cycle ends with no row at all, the cycle does not
  store an empty table: building and sorting the table raises \<^verbatim>\<open>KeyError\<close> for the
  column \<^verbatim>\<open>% 24h\<close>, the cycle ends with it, and the stored table stays the one of
  before.
\<close>

theorem empty_result_raises:
  assumes "load_symbols net now refresh st = (Inr cache, st1)"
    and "fetch_all_tickers_24h net now st1 = (Inr tickers, st2)"
    and "filter_loop L net (tick_map tickers) (map symbol (take max_symbols cache)) [] st2 = (Inr [], st3)"
  shows "reload L net now refresh max_symbols st = (Some (KeyError ''% 24h''), st3) \<and>
         filtered_df st3 = filtered_df st"
proof -
  have "reload L net now refresh max_symbols st = (Some (KeyError ''% 24h''), st3)"
    using assms by (simp add: reload_def Let_def sort_values_def)
  then show ?thesis by (simp add: reload_error_frame)
qed

theorem empty_result_raises_witness:
  "reload demo_lib flat_net 1000 True 4 initial_state =
     (Some (KeyError ''% 24h''),
      initial_state\<lparr>symbols_cache := Some demo_perps, exchange_memo := Some (1000, demo_perps),
                    tickers_memo := Some (1000, [tick ''BBB'' ''2.0'']),
                    requests := [GetExchangeInfo, GetTicker24h]\<rparr>) \<and>
   filtered_df initial_state = None"
  using empty_result_raises[OF flat_load flat_tickers flat_loop]
  by (simp add: initial_state_def)

subsection \<open>The listing-date lookup\<close>

lemma listing_date_failed: "lookup_failed net s \<Longrightarrow> listing_date L net s = ''N/A''"
  by (auto simp: lookup_failed_def listing_date_def split: response.splits option.splits list.splits)

lemma listing_date_gives: "lookup_gives L net s d \<Longrightarrow> listing_date L net s = d"
  by (auto simp: lookup_gives_def listing_date_def split: response.splits option.splits list.splits)

lemma fetch_exchange_symbols_body_klines:
  "fetch_exchange_symbols_body (net\<lparr>klines := kl\<rparr>) st = fetch_exchange_symbols_body net st"
  by (simp add: fetch_exchange_symbols_body_def)

lemma fetch_exchange_symbols_klines:
  "fetch_exchange_symbols (net\<lparr>klines := kl\<rparr>) now st = fetch_exchange_symbols net now st"
  unfolding fetch_exchange_symbols_def fetch_exchange_symbols_body_klines ..

lemma load_symbols_klines [simp]:
  "load_symbols (net\<lparr>klines := kl\<rparr>) now refresh st = load_symbols net now refresh st"
  unfolding load_symbols_def fetch_exchange_symbols_klines ..

lemma fetch_all_tickers_24h_body_klines:
  "fetch_all_tickers_24h_body (net\<lparr>klines := kl\<rparr>) st = fetch_all_tickers_24h_body net st"
  by (simp add: fetch_all_tickers_24h_body_def)

lemma fetch_all_tickers_24h_klines [simp]:
  "fetch_all_tickers_24h (net\<lparr>klines := kl\<rparr>) now st = fetch_all_tickers_24h net now st"
  unfolding fetch_all_tickers_24h_def fetch_all_tickers_24h_body_klines ..

lemma filter_loop_isl:
  "isl (fst (filter_loop L net tm syms rows st)) \<Longrightarrow> isl (fst (filter_loop L net' tm syms rows' st'))"
proof (induction syms arbitrary: rows st rows' st')
  case Nil
  then show ?case by simp
next
  case (Cons a syms)
  show ?case
  proof (cases "tm a")
    case None
    with Cons show ?thesis by simp
  next
    case (Some t)
    show ?thesis
    proof (cases "py_float L (priceChangePercent t)")
      case None
      with Some show ?thesis by simp
    next
      case pct: (Some pct)
      show ?thesis
      proof (cases "f_le (Fin 0) pct")
        case True
        with Some pct Cons show ?thesis by simp
      next
        case False
        show ?thesis
        proof (cases "py_float L (lastPrice t)")
          case None
          with Some pct False show ?thesis by (simp add: Let_def)
        next
          case lp: (Some lp)
          show ?thesis
          proof (cases "py_float L (quoteVolume t)")
            case None
            with Some pct False lp show ?thesis by (simp add: Let_def)
          next
            case qv: (Some qv)
            with Some pct False lp Cons.prems
            have "isl (fst (filter_loop L net tm syms
                    (rows @ [\<lparr>row_symbol = a, pct_24h = pct, last_price = lp,
                              volume_usdt = qv, listed_date = listing_date L net a\<rparr>])
                    (send (GetKlines (listing_params a)) st)))"
              by (simp add: Let_def)
            from Cons.IH[OF this] Some pct False lp qv show ?thesis by (simp add: Let_def)
          qed
        qed
      qed
    qed
  qed
qed

lemma reload_completes_any_lookup:
  assumes "fst (reload L (net\<lparr>klines := kl0\<rparr>) now refresh max_symbols st) = None"
  shows "fst (reload L net now refresh max_symbols st) = None"
proof -
  let ?net0 = "net\<lparr>klines := kl0\<rparr>"
  obtain st0 where "reload L ?net0 now refresh max_symbols st = (None, st0)"
    using assms by (cases "reload L ?net0 now refresh max_symbols st") simp
  from reload_success[OF this] obtain cache st1 tickers st2 rows st3 where
    a: "load_symbols net now refresh st = (Inr cache, st1)"
    and b: "fetch_all_tickers_24h net now st1 = (Inr tickers, st2)"
    and c: "filter_loop L ?net0 (tick_map tickers) (map symbol (take max_symbols cache)) [] st2 = (Inr rows, st3)"
    and d: "rows \<noteq> []"
    by auto
  let ?tm = "tick_map tickers" and ?syms = "map symbol (take max_symbols cache)"
  obtain res st3' where e: "filter_loop L net ?tm ?syms [] st2 = (res, st3')"
    by (cases "filter_loop L net ?tm ?syms [] st2")
  have "\<not> isl res"
  proof
    assume "isl res"
    with e have "isl (fst (filter_loop L net ?tm ?syms [] st2))" by simp
    from filter_loop_isl[OF this, of ?net0 "[]" st2] c show False by simp
  qed
  then obtain rows' where r: "res = Inr rows'" by (cases res) simp_all
  from filter_loop_symbols[OF c] filter_loop_symbols[OF e[unfolded r]]
  have "map row_symbol rows' = map row_symbol rows" by simp
  with d have "rows' \<noteq> []" by auto
  from reload_completes[OF a b e[unfolded r] this] show ?thesis by auto
qed

text \<open>
  C5. Let X and Y be two qualifying candidates of a refresh cycle, the listing-date
  lookup of X failing (exception, status other than 200, empty response) and that of
  Y giving a date. If the cycle completes for some answers of the lookups, it
  completes for these too, no exception of a lookup ending it; and the table it stores
  has a row of X with the listed date \<^verbatim>\<open>N/A\<close> and a row of Y with the date, which is the
  output of \<^verbatim>\<open>strftime("%d/%m/%Y")\<close>.
\<close>

theorem partial_failure_isolation:
  assumes "fst (reload L (net\<lparr>klines := kl0\<rparr>) now refresh max_symbols st) = None"
    and "load_symbols net now refresh st = (Inr cache, st1)"
    and "fetch_all_tickers_24h net now st1 = (Inr tickers, st2)"
    and "X \<in> set (map symbol (take max_symbols cache))"
    and "qualifies L (tick_map tickers) X"
    and "lookup_failed net X"
    and "Y \<in> set (map symbol (take max_symbols cache))"
    and "qualifies L (tick_map tickers) Y"
    and "lookup_gives L net Y d"
  shows "\<exists>st' df. reload L net now refresh max_symbols st = (None, st') \<and>
           filtered_df st' = Some df \<and>
           (\<exists>r \<in> set df. row_symbol r = X \<and> listed_date r = ''N/A'') \<and>
           (\<exists>r \<in> set df. row_symbol r = Y \<and> listed_date r = d)"
proof -
  from reload_completes_any_lookup[OF assms(1)]
  obtain st' where fin: "reload L net now refresh max_symbols st = (None, st')"
    by (cases "reload L net now refresh max_symbols st") simp
  let ?tm = "tick_map tickers" and ?syms = "map symbol (take max_symbols cache)"
  from reload_table[OF fin] assms(2,3) obtain df where
    df: "filtered_df st' = Some df"
    and m: "mset df = mset (List.map_filter (row_of L net ?tm) ?syms)"
    and q: "\<forall>s \<in> set ?syms. survives L ?tm s \<longrightarrow> row_of L net ?tm s \<noteq> None"
    by auto
  from m have sdf: "set df = set (List.map_filter (row_of L net ?tm) ?syms)"
    by (metis set_mset_mset)
  have row: "\<exists>r \<in> set df. row_symbol r = s \<and> listed_date r = listing_date L net s"
    if "s \<in> set ?syms" "qualifies L ?tm s" for s
  proof -
    from that(2) have "survives L ?tm s" by (rule qualifies_survives)
    with q that(1) obtain r where r: "row_of L net ?tm s = Some r" by blast
    with that(1) have "r \<in> set df" unfolding sdf by (force simp: List.map_filter_def)
    with row_of_Some[OF r] show ?thesis by blast
  qed
  from row[OF assms(4,5)] listing_date_failed[OF assms(6)]
  have x: "\<exists>r \<in> set df. row_symbol r = X \<and> listed_date r = ''N/A''" by simp
  from row[OF assms(7,8)] listing_date_gives[OF assms(9)]
  have y: "\<exists>r \<in> set df. row_symbol r = Y \<and> listed_date r = d" by simp
  from fin df x y show ?thesis by blast
qed

lemma raised_reload:
  "fst (reload demo_lib (demo_net\<lparr>klines := \<lambda>p. Raised\<rparr>) 1000 True 4 initial_state) = None"
  by (simp add: demo_defs)

lemma demo_candidates: "map symbol (take 4 demo_perps) = [''CCC'', ''BBB'', ''AAA'', ''DDD'']"
  by (simp add: demo_perps_def perp_def)

lemma demo_qualifies:
  "qualifies demo_lib (tick_map demo_tickers) ''AAA''"
  "qualifies demo_lib (tick_map demo_tickers) ''CCC''"
  by (simp_all add: qualifies_def tick_map_def demo_tickers_def tick_def demo_lib_def
      demo_float_def f_lt_def)

lemma demo_lookups:
  "lookup_failed demo_net ''AAA''"
  "lookup_gives demo_lib demo_net ''CCC'' ''08/09/2019''"
  by (simp_all add: lookup_failed_def lookup_gives_def demo_net_def demo_klines_def listing_params_def
      demo_kline_def demo_lib_def demo_dmy_def)

theorem partial_failure_isolation_witness:
  "lookup_failed demo_net ''AAA'' \<and> lookup_gives demo_lib demo_net ''CCC'' ''08/09/2019'' \<and>
   reload demo_lib demo_net 1000 True 4 initial_state = (None, demo_state) \<and>
   filtered_df demo_state = Some [row_AAA, row_CCC] \<and>
   row_symbol row_AAA = ''AAA'' \<and> listed_date row_AAA = ''N/A'' \<and>
   row_symbol row_CCC = ''CCC'' \<and> listed_date row_CCC = ''08/09/2019''"
proof -
  have x: "''AAA'' \<in> set (map symbol (take 4 demo_perps))"
    and y: "''CCC'' \<in> set (map symbol (take 4 demo_perps))"
    by (simp_all add: demo_candidates)
  from partial_failure_isolation[OF raised_reload demo_load demo_tickers_fetch
      x demo_qualifies(1) demo_lookups(1) y demo_qualifies(2) demo_lookups(2)]
    demo_reload demo_lookups
  show ?thesis by (simp add: demo_state_def row_AAA_def row_CCC_def)
qed

subsection \<open>Failures of the two bulk fetches\<close>

lemma failure_get_json: "failure r = Some e \<Longrightarrow> get_json r = Inl e"
  by (auto simp: failure_def get_json_def raise_for_status_def split: response.splits if_splits)

lemma no_failure_get_json: "failure r = None \<Longrightarrow> \<exists>v. get_json r = Inr v"
  by (auto simp: failure_def get_json_def raise_for_status_def split: response.splits if_splits)

lemma fetch_exchange_symbols_fails:
  "expired 300 now (exchange_memo st) \<Longrightarrow> failure (exchange_info net) = Some e \<Longrightarrow>
     fetch_exchange_symbols net now st = (Inl e, send GetExchangeInfo st)"
  by (auto simp: fetch_exchange_symbols_def fetch_exchange_symbols_body_def expired_def
      cache_fresh_def dest!: failure_get_json split: option.splits)

lemma fetch_all_tickers_24h_fails:
  "expired 12 now (tickers_memo st) \<Longrightarrow> failure (ticker_24h net) = Some e \<Longrightarrow>
     fetch_all_tickers_24h net now st = (Inl e, send GetTicker24h st)"
  by (auto simp: fetch_all_tickers_24h_def fetch_all_tickers_24h_body_def expired_def
      cache_fresh_def dest!: failure_get_json split: option.splits)

lemma load_symbols_fails:
  "refresh \<or> symbols_cache st = None \<Longrightarrow> expired 300 now (exchange_memo st) \<Longrightarrow>
   failure (exchange_info net) = Some e \<Longrightarrow>
     load_symbols net now refresh st = (Inl e, send GetExchangeInfo st)"
  by (auto simp: load_symbols_def fetch_exchange_symbols_fails)

lemma moved_reload: "reload demo_lib moved_net 1000 True 4 initial_state = (None, demo_state)"
  by (simp add: demo_defs moved_net_def)

text \<open>
  The exchange answers the metadata request with the status 302, which is not a 2xx
  status, and with the list as its body: nothing raises, the cycle completes and
  stores a table.
\<close>

theorem non_2xx_is_no_failure:
  "exchange_info moved_net = Response 302 (Some demo_symbols) \<and>
   \<not> (200 \<le> (302::nat) \<and> (302::nat) < 300) \<and>
   filtered_df initial_state = None \<and>
   reload demo_lib moved_net 1000 True 4 initial_state = (None, demo_state) \<and>
   filtered_df demo_state = Some [row_AAA, row_CCC]"
  using moved_reload
  by (simp add: moved_net_def initial_state_def demo_state_def)

text \<open>
  C6, as amended. When the metadata fetch or the ticker fetch goes to the network and
  fails there, that is, the request raises (a timeout), or the status is an HTTP
  error status from 400 to 599, or the body is no JSON, the refresh cycle ends with
  that exception: it is not caught, the failed request is the only one of the fetch
  and the last one of the cycle (no retry, nothing after it), and the state is the
  one of before with that request logged, so the stored table is unchanged. In
  general a cycle that ends with an exception leaves the stored table untouched: the
  table is replaced as a whole, at the end of a cycle that completes. A response with
  another status is no failure, whether the status is 2xx or not: its body is used.
\<close>

theorem fail_fast:
  "((refresh \<or> symbols_cache st = None) \<and> expired 300 now (exchange_memo st) \<and>
    failure (exchange_info net) = Some e \<longrightarrow>
      reload L net now refresh max_symbols st = (Some e, send GetExchangeInfo st) \<and>
      filtered_df (send GetExchangeInfo st) = filtered_df st) \<and>
   (load_symbols net now refresh st = (Inr cache, st1) \<and> expired 12 now (tickers_memo st1) \<and>
    failure (ticker_24h net) = Some e \<longrightarrow>
      reload L net now refresh max_symbols st = (Some e, send GetTicker24h st1) \<and>
      filtered_df (send GetTicker24h st1) = filtered_df st) \<and>
   (reload L net now refresh max_symbols st = (Some e, st') \<longrightarrow> filtered_df st' = filtered_df st) \<and>
   (\<not> (400 \<le> code \<and> code < 600) \<longrightarrow> get_json (Response code (Some v)) = Inr v)"
proof (intro conjI impI)
  assume h: "(refresh \<or> symbols_cache st = None) \<and> expired 300 now (exchange_memo st) \<and>
    failure (exchange_info net) = Some e"
  then have "load_symbols net now refresh st = (Inl e, send GetExchangeInfo st)"
    by (intro load_symbols_fails) simp_all
  then show "reload L net now refresh max_symbols st = (Some e, send GetExchangeInfo st)"
    by (simp add: reload_def)
  show "filtered_df (send GetExchangeInfo st) = filtered_df st" by (simp add: send_frame)
next
  assume h: "load_symbols net now refresh st = (Inr cache, st1) \<and> expired 12 now (tickers_memo st1) \<and>
    failure (ticker_24h net) = Some e"
  then have a: "load_symbols net now refresh st = (Inr cache, st1)" by simp
  from h have "fetch_all_tickers_24h net now st1 = (Inl e, send GetTicker24h st1)"
    by (intro fetch_all_tickers_24h_fails) simp_all
  with a show "reload L net now refresh max_symbols st = (Some e, send GetTicker24h st1)"
    by (simp add: reload_def Let_def)
  show "filtered_df (send GetTicker24h st1) = filtered_df st"
    using load_symbols_frame[OF a] by (simp add: send_frame)
next
  assume "reload L net now refresh max_symbols st = (Some e, st')"
  then show "filtered_df st' = filtered_df st" by (rule reload_error_frame)
next
  assume "\<not> (400 \<le> code \<and> code < 600)"
  then show "get_json (Response code (Some v)) = Inr v"
    by (simp add: get_json_def raise_for_status_def)
qed

lemma later_load:
  "load_symbols later_net 2000 True demo_state =
     (Inr [perp ''EEE''],
      demo_state\<lparr>symbols_cache := Some [perp ''EEE''], exchange_memo := Some (2000, [perp ''EEE'']),
                 requests := requests demo_state @ [GetExchangeInfo]\<rparr>)"
  by (simp add: load_symbols_def fetch_exchange_symbols_def fetch_exchange_symbols_body_def
      get_json_def raise_for_status_def later_net_def demo_state_def cache_fresh_def send_def
      perp_def is_perpetual_usdt_def)

theorem fail_fast_witness:
  "failure (exchange_info down_net) = Some (HTTPError 503) \<and>
   reload demo_lib down_net 2000 True 4 demo_state =
     (Some (HTTPError 503), send GetExchangeInfo demo_state) \<and>
   filtered_df (send GetExchangeInfo demo_state) = Some [row_AAA, row_CCC] \<and>
   failure (ticker_24h later_net) = Some RequestException \<and>
   reload demo_lib later_net 2000 True 4 demo_state =
     (Some RequestException,
      send GetTicker24h
        (demo_state\<lparr>symbols_cache := Some [perp ''EEE''], exchange_memo := Some (2000, [perp ''EEE'']),
                    requests := requests demo_state @ [GetExchangeInfo]\<rparr>)) \<and>
   filtered_df
     (send GetTicker24h
        (demo_state\<lparr>symbols_cache := Some [perp ''EEE''], exchange_memo := Some (2000, [perp ''EEE'']),
                    requests := requests demo_state @ [GetExchangeInfo]\<rparr>)) = Some [row_AAA, row_CCC]"
proof -
  have f1: "failure (exchange_info down_net) = Some (HTTPError 503)"
    by (simp add: failure_def down_net_def)
  have e1: "expired 300 2000 (exchange_memo demo_state)"
    by (simp add: expired_def demo_state_def)
  have f2: "failure (ticker_24h later_net) = Some RequestException"
    by (simp add: failure_def later_net_def)
  have e2: "expired 12 2000
      (tickers_memo (demo_state\<lparr>symbols_cache := Some [perp ''EEE''],
         exchange_memo := Some (2000, [perp ''EEE'']),
         requests := requests demo_state @ [GetExchangeInfo]\<rparr>))"
    by (simp add: expired_def demo_state_def)
  from fail_fast[where refresh = True and st = demo_state and now = 2000 and net = down_net
      and e = "HTTPError 503" and L = demo_lib and max_symbols = 4, THEN conjunct1] f1 e1
  have 1: "reload demo_lib down_net 2000 True 4 demo_state =
     (Some (HTTPError 503), send GetExchangeInfo demo_state)" by simp
  from fail_fast[where refresh = True and st = demo_state and now = 2000 and net = later_net
      and e = RequestException and L = demo_lib and max_symbols = 4
      and cache = "[perp ''EEE'']"
      and ?st1.0 = "demo_state\<lparr>symbols_cache := Some [perp ''EEE''],
         exchange_memo := Some (2000, [perp ''EEE'']),
         requests := requests demo_state @ [GetExchangeInfo]\<rparr>",
      THEN conjunct2, THEN conjunct1] later_load f2 e2
  have 2: "reload demo_lib later_net 2000 True 4 demo_state =
     (Some RequestException,
      send GetTicker24h
        (demo_state\<lparr>symbols_cache := Some [perp ''EEE''], exchange_memo := Some (2000, [perp ''EEE'']),
                    requests := requests demo_state @ [GetExchangeInfo]\<rparr>))" by simp
  from f1 f2 1 2 show ?thesis by (simp add: demo_state_def send_def)
qed

subsection \<open>The metadata cache\<close>

lemma fetch_exchange_symbols_fresh:
  "exchange_memo st = Some (t0, v) \<Longrightarrow> cache_fresh 300 t0 now \<Longrightarrow>
     fetch_exchange_symbols net now st = (Inr v, st)"
  by (simp add: fetch_exchange_symbols_def)

lemma fetch_exchange_symbols_stale:
  assumes "exchange_memo st = None \<or> (exchange_memo st = Some (t0, v) \<and> \<not> cache_fresh 300 t0 now)"
    and "get_json (exchange_info net) = Inr syms"
  shows "fetch_exchange_symbols net now st =
           (Inr (filter is_perpetual_usdt syms),
            (send GetExchangeInfo st)\<lparr>exchange_memo := Some (now, filter is_perpetual_usdt syms)\<rparr>)"
  using assms by (auto simp: fetch_exchange_symbols_def fetch_exchange_symbols_body_def)

text \<open>
  An explicit refresh ten time units after the metadata was stored, while the exchange
  would by now answer with another list: the script is served the stored list and
  sends no request.
\<close>

theorem explicit_refresh_within_ttl:
  "exchange_memo demo_state = Some (1000, demo_perps) \<and>
   exchange_info later_net = Response 200 (Some [perp ''EEE'']) \<and>
   load_symbols later_net 1010 True demo_state = (Inr demo_perps, demo_state) \<and>
   GetExchangeInfo \<notin> set (drop (length (requests demo_state))
                               (requests (snd (load_symbols later_net 1010 True demo_state))))"
  by (simp add: load_symbols_def fetch_exchange_symbols_def cache_fresh_def demo_state_def later_net_def)

text \<open>
  C7, as amended. The value of the metadata fetch is cached for 300 time units. While
  the cached value is younger, every call returns it and sends no request, also the
  call that an explicit refresh makes, which then stores the cached list in the
  session again. Once it is 300 units old or older, or when nothing is cached, the
  call that an explicit refresh makes sends one request and replaces the cached list
  and the list of the session by the answer, filtered, as a whole.
\<close>

theorem metadata_cache:
  "(exchange_memo st = Some (t0, v) \<and> now < t0 + 300 \<longrightarrow>
      fetch_exchange_symbols net now st = (Inr v, st) \<and>
      load_symbols net now True st = (Inr v, st\<lparr>symbols_cache := Some v\<rparr>)) \<and>
   ((exchange_memo st = None \<or> (exchange_memo st = Some (t0, v) \<and> t0 + 300 \<le> now)) \<and>
    get_json (exchange_info net) = Inr syms \<longrightarrow>
      fetch_exchange_symbols net now st =
        (Inr (filter is_perpetual_usdt syms),
         (send GetExchangeInfo st)\<lparr>exchange_memo := Some (now, filter is_perpetual_usdt syms)\<rparr>) \<and>
      load_symbols net now True st =
        (Inr (filter is_perpetual_usdt syms),
         (send GetExchangeInfo st)\<lparr>exchange_memo := Some (now, filter is_perpetual_usdt syms),
                                    symbols_cache := Some (filter is_perpetual_usdt syms)\<rparr>))"
proof (intro conjI impI)
  assume a: "exchange_memo st = Some (t0, v) \<and> now < t0 + 300"
  then show f: "fetch_exchange_symbols net now st = (Inr v, st)"
    by (simp add: fetch_exchange_symbols_fresh cache_fresh_def)
  show "load_symbols net now True st = (Inr v, st\<lparr>symbols_cache := Some v\<rparr>)"
    by (simp add: load_symbols_def f)
next
  assume a: "(exchange_memo st = None \<or> (exchange_memo st = Some (t0, v) \<and> t0 + 300 \<le> now)) \<and>
    get_json (exchange_info net) = Inr syms"
  then have "exchange_memo st = None \<or> (exchange_memo st = Some (t0, v) \<and> \<not> cache_fresh 300 t0 now)"
    by (auto simp: cache_fresh_def)
  with a show f: "fetch_exchange_symbols net now st =
        (Inr (filter is_perpetual_usdt syms),
         (send GetExchangeInfo st)\<lparr>exchange_memo := Some (now, filter is_perpetual_usdt syms)\<rparr>)"
    by (intro fetch_exchange_symbols_stale) simp_all
  show "load_symbols net now True st =
        (Inr (filter is_perpetual_usdt syms),
         (send GetExchangeInfo st)\<lparr>exchange_memo := Some (now, filter is_perpetual_usdt syms),
                                    symbols_cache := Some (filter is_perpetual_usdt syms)\<rparr>)"
    by (simp add: load_symbols_def f)
qed

theorem metadata_cache_witness:
  "fetch_exchange_symbols later_net 1299 demo_state = (Inr demo_perps, demo_state) \<and>
   load_symbols later_net 1300 True demo_state =
     (Inr [perp ''EEE''],
      demo_state\<lparr>symbols_cache := Some [perp ''EEE''], exchange_memo := Some (1300, [perp ''EEE'']),
                 requests := requests demo_state @ [GetExchangeInfo]\<rparr>)"
proof -
  have m: "exchange_memo demo_state = Some (1000, demo_perps)" by (simp add: demo_state_def)
  have j: "get_json (exchange_info later_net) = Inr [perp ''EEE'']"
    by (simp add: get_json_def later_net_def raise_for_status_def)
  from metadata_cache[of demo_state 1000 demo_perps 1299 later_net] m
  have 1: "fetch_exchange_symbols later_net 1299 demo_state = (Inr demo_perps, demo_state)" by simp
  from metadata_cache[of demo_state 1000 demo_perps 1300 later_net "[perp ''EEE'']"] m j
  have 2: "load_symbols later_net 1300 True demo_state =
     (Inr [perp ''EEE''],
      demo_state\<lparr>symbols_cache := Some [perp ''EEE''], exchange_memo := Some (1300, [perp ''EEE'']),
                 requests := requests demo_state @ [GetExchangeInfo]\<rparr>)"
    by (simp add: send_def perp_def is_perpetual_usdt_def demo_state_def)
  from 1 2 show ?thesis by simp
qed


end
